theory Spec2Isabelle
  imports Main "HOL-Library.Word"
begin

section \<open>The EFA transport: fabric context and peer endpoint\<close>

text \<open>
  A shallow embedding of \<^verbatim>\<open>efa_context.cpp\<close> and \<^verbatim>\<open>efa_endpoint.cpp\<close>.
  A C++ member \<^verbatim>\<open>x_\<close> is the record field \<open>x\<close>. A pointer or a
  \<^verbatim>\<open>shared_ptr\<close> is an \<open>option\<close>: \<open>None\<close> is \<^verbatim>\<open>nullptr\<close>.

  The libfabric provider and the handshake transport are outside the program. Every call
  to them is appended to a history (a \<open>call list\<close>), and what a call returns is read from
  a \<open>provider\<close>: a record of functions of the history so far and of the call's arguments.
  So the provider may answer two equal calls differently, and a theorem that holds for
  every \<open>provider\<close> holds whatever the hardware does.

  The headers of the two files are not among the sources. A record has the members that
  the two files read or write; a bit mask of libfabric flags is the set of its flags.
\<close>

subsection \<open>Status codes and provider handles\<close>

text \<open>
  The status an operation returns: \<open>RC_OK\<close> is the \<^verbatim>\<open>0\<close> of the source, the others are
  the nonzero \<^verbatim>\<open>ERR_*\<close> codes named in the two files; \<open>ERR_OTHER\<close> stands for any other
  nonzero code the handshake transport may report.
\<close>

datatype rc = RC_OK | ERR_INVALID_ARGUMENT | ERR_REJECT_HANDSHAKE | ERR_ENDPOINT | ERR_CONTEXT
  | ERR_OTHER int

type_synonym fid = "nat option"

datatype fi_flag = FI_MSG | FI_RMA | FI_READ | FI_WRITE | FI_REMOTE_READ | FI_REMOTE_WRITE
  | FI_CONTEXT | FI_MR_LOCAL | FI_MR_VIRT_ADDR | FI_MR_ALLOCATED | FI_MR_PROV_KEY
  | FI_TRANSMIT | FI_RECV

datatype fi_ep_type = FI_EP_UNSPEC | FI_EP_RDM

record fi_hints =
  caps :: "fi_flag set"
  hints_mode :: "fi_flag set"
  ep_type :: fi_ep_type
  prov_name :: string
  domain_name :: string
  mr_mode :: "fi_flag set"

text \<open>\<^verbatim>\<open>FI_EAGAIN\<close> of libfabric is the \<^verbatim>\<open>EAGAIN\<close> of Linux.\<close>

definition FI_EAGAIN :: int where
  "FI_EAGAIN = 11"

text \<open>\<^verbatim>\<open>FI_ADDR_UNSPEC\<close> of libfabric is \<^verbatim>\<open>(uint64_t) -1\<close>.\<close>

definition FI_ADDR_UNSPEC :: "64 word" where
  "FI_ADDR_UNSPEC = - 1"

subsection \<open>Handshake descriptors, slices, posted writes\<close>

record HandShakeDesc =
  local_nic_path :: string
  peer_nic_path :: string
  reply_msg :: string

datatype slice_status = PENDING | POSTED | SUCCESS | TIMEOUT | FAILED

record slice =
  source_addr :: "64 word"
  length_slice :: "64 word"
  dest_addr :: "64 word"
  dest_rkey :: "64 word"
  status_slice :: slice_status

text \<open>The arguments of one \<^verbatim>\<open>fi_write\<close>.\<close>

record write_req =
  wr_ep :: fid
  wr_buf :: "64 word"
  wr_len :: "64 word"
  wr_desc :: fid
  wr_dest :: "64 word"
  wr_raddr :: "64 word"
  wr_rkey :: "64 word"

subsection \<open>Calls to the provider\<close>

datatype call =
    FiAllocinfo
  | FiGetinfo fid fi_hints
  | FiFreeinfo fid
  | FiFabric fid
  | FiDomain fid fid
  | FiAvOpen fid int
  | FiCqOpen fid nat
  | FiClose fid
  | FiMrReg fid "64 word" "64 word" "fi_flag set"
  | FiEndpoint fid fid
  | FiEpBind fid fid "fi_flag set"
  | FiEnable fid
  | FiGetname fid nat
  | FiAvInsert fid "8 word list"
  | FiWrite write_req
  | SendHandshake string HandShakeDesc

record provider =
  fi_allocinfo :: "call list \<Rightarrow> fid"
  fi_getinfo :: "call list \<Rightarrow> fid \<Rightarrow> fi_hints \<Rightarrow> int \<times> fid"
  fi_fabric :: "call list \<Rightarrow> fid \<Rightarrow> int \<times> fid"
  fi_domain :: "call list \<Rightarrow> fid \<Rightarrow> fid \<Rightarrow> int \<times> fid"
  fi_av_open :: "call list \<Rightarrow> fid \<Rightarrow> int \<Rightarrow> int \<times> fid"
  fi_cq_open :: "call list \<Rightarrow> fid \<Rightarrow> nat \<Rightarrow> int \<times> fid"
  fi_close :: "call list \<Rightarrow> fid \<Rightarrow> int"
  fi_mr_reg :: "call list \<Rightarrow> fid \<Rightarrow> 64 word \<Rightarrow> 64 word \<Rightarrow> fi_flag set \<Rightarrow> int \<times> fid"
  fi_mr_key :: "fid \<Rightarrow> 64 word"
  fi_endpoint :: "call list \<Rightarrow> fid \<Rightarrow> fid \<Rightarrow> int \<times> fid"
  fi_ep_bind :: "call list \<Rightarrow> fid \<Rightarrow> fid \<Rightarrow> fi_flag set \<Rightarrow> int"
  fi_enable :: "call list \<Rightarrow> fid \<Rightarrow> int"
  fi_getname :: "call list \<Rightarrow> fid \<Rightarrow> nat \<Rightarrow> int \<times> 8 word list \<times> nat"
  fi_av_insert :: "call list \<Rightarrow> fid \<Rightarrow> 8 word list \<Rightarrow> int \<times> 64 word"
  fi_write :: "call list \<Rightarrow> write_req \<Rightarrow> int"
  sendHandshake :: "call list \<Rightarrow> string \<Rightarrow> HandShakeDesc \<Rightarrow> rc \<times> HandShakeDesc"

subsection \<open>The peer endpoint: data\<close>

datatype ep_status = INITIALIZING | UNCONNECTED | CONNECTED

text \<open>
  \<open>wr_depth\<close> is the outstanding-work counter. Its declaration is in the header; it is
  an unbounded \<open>int\<close> here.
\<close>

record efa_endpoint =
  status :: ep_status
  ep :: fid
  tx_cq :: fid
  rx_cq :: fid
  peer_fi_addr :: "64 word"
  local_addr :: "8 word list"
  local_addr_len :: nat
  wr_depth :: int
  max_wr_depth :: nat
  ep_peer_nic_path :: string

text \<open>\<^verbatim>\<open>EfaEndPoint::EfaEndPoint\<close>.\<close>

definition EfaEndPoint :: efa_endpoint where
  "EfaEndPoint = \<lparr>status = INITIALIZING, ep = None, tx_cq = None, rx_cq = None,
     peer_fi_addr = FI_ADDR_UNSPEC, local_addr = [], local_addr_len = 0, wr_depth = 0,
     max_wr_depth = 0, ep_peer_nic_path = []\<rparr>"

subsection \<open>The fabric context: data\<close>

record EfaMemoryRegionMeta =
  addr :: "64 word"
  length_mr :: "64 word"
  mr :: fid
  key :: "64 word"

record EfaCq =
  cq :: fid

text \<open>
  \<open>endpoint_store\<close> is the \<^verbatim>\<open>shared_ptr<EfaEndpointStore>\<close>; the store maps a peer path to
  a \<^verbatim>\<open>shared_ptr<EfaEndPoint>\<close>. \<open>local_server_name\<close> is what
  \<^verbatim>\<open>engine_.local_server_name()\<close> returns.
\<close>

type_synonym EfaEndpointStore = "string \<rightharpoonup> efa_endpoint option"

record efa_context =
  local_server_name :: string
  device_name :: string
  fi_info :: fid
  hints :: fid
  fabric :: fid
  domain :: fid
  av :: fid
  cq_list :: "EfaCq option list"
  mr_map :: "64 word \<rightharpoonup> EfaMemoryRegionMeta"
  endpoint_store :: "EfaEndpointStore option"

text \<open>\<^verbatim>\<open>EfaContext::EfaContext\<close>.\<close>

definition EfaContext :: "string \<Rightarrow> string \<Rightarrow> efa_context" where
  "EfaContext engine_name dev = \<lparr>local_server_name = engine_name, device_name = dev,
     fi_info = None, hints = None, fabric = None, domain = None, av = None, cq_list = [],
     mr_map = Map.empty, endpoint_store = None\<rparr>"

definition nicPath :: "efa_context \<Rightarrow> string" where
  "nicPath c = local_server_name c @ ''@'' @ device_name c"

subsection \<open>\<^verbatim>\<open>EfaContext::construct\<close>\<close>

text \<open>\<^verbatim>\<open>vector::resize\<close>: new places hold the value-initialised element \<open>d\<close>.\<close>

definition resize :: "nat \<Rightarrow> 'a \<Rightarrow> 'a list \<Rightarrow> 'a list" where
  "resize n d xs = take n xs @ replicate (n - length xs) d"

definition efa_hints :: "string \<Rightarrow> fi_hints" where
  "efa_hints dev = \<lparr>caps = {FI_MSG, FI_RMA, FI_READ, FI_WRITE, FI_REMOTE_READ, FI_REMOTE_WRITE},
     hints_mode = {FI_CONTEXT}, ep_type = FI_EP_RDM, prov_name = ''efa'',
     domain_name = dev @ ''-rdm'',
     mr_mode = {FI_MR_LOCAL, FI_MR_VIRT_ADDR, FI_MR_ALLOCATED, FI_MR_PROV_KEY}\<rparr>"

text \<open>The loop that opens the completion queues, from index \<open>i\<close>.\<close>

function open_cqs ::
  "provider \<Rightarrow> nat \<Rightarrow> nat \<Rightarrow> nat \<Rightarrow> efa_context \<times> call list \<Rightarrow> rc \<times> efa_context \<times> call list"
where
  "open_cqs P max_cqe num_cq_list i (c, h) =
     (if i < num_cq_list then
        (let (ret, q) = fi_cq_open P h (domain c) max_cqe;
             h1 = h @ [FiCqOpen (domain c) max_cqe]
         in if ret \<noteq> 0 then (ERR_CONTEXT, c, h1)
            else open_cqs P max_cqe num_cq_list (Suc i)
                   (c\<lparr>cq_list := (cq_list c)[i := Some \<lparr>cq = q\<rparr>]\<rparr>, h1))
      else (RC_OK, c, h))"
  by pat_completeness auto
termination
  by (relation "measure (\<lambda>(P, max_cqe, n, i, s). n - i)") auto

definition construct ::
  "provider \<Rightarrow> nat \<Rightarrow> nat \<Rightarrow> 8 word \<Rightarrow> int \<Rightarrow> nat \<Rightarrow> int \<Rightarrow> efa_context \<times> call list
     \<Rightarrow> rc \<times> efa_context \<times> call list"
where
  "construct P num_cq_list num_comp_channels port gid_index max_cqe max_endpoints s =
     (let (c, h) = s;
          c = c\<lparr>endpoint_store := Some Map.empty\<rparr>;
          c = c\<lparr>hints := fi_allocinfo P h\<rparr>;
          h = h @ [FiAllocinfo]
      in if hints c = None then (ERR_CONTEXT, c, h)
      else
       (let hs = efa_hints (device_name c);
            (ret, inf) = fi_getinfo P h (hints c) hs;
            h = h @ [FiGetinfo (hints c) hs];
            c = c\<lparr>fi_info := inf\<rparr>
        in if ret \<noteq> 0 then
             (ERR_CONTEXT, c\<lparr>hints := None\<rparr>, h @ [FiFreeinfo (hints c)])
        else
         (let (ret, fab) = fi_fabric P h (fi_info c);
              h = h @ [FiFabric (fi_info c)];
              c = c\<lparr>fabric := fab\<rparr>
          in if ret \<noteq> 0 then
               (ERR_CONTEXT, c\<lparr>fi_info := None, hints := None\<rparr>,
                h @ [FiFreeinfo (fi_info c), FiFreeinfo (hints c)])
          else
           (let (ret, dom) = fi_domain P h (fabric c) (fi_info c);
                h = h @ [FiDomain (fabric c) (fi_info c)];
                c = c\<lparr>domain := dom\<rparr>
            in if ret \<noteq> 0 then
                 (ERR_CONTEXT, c\<lparr>fabric := None, fi_info := None, hints := None\<rparr>,
                  h @ [FiClose (fabric c), FiFreeinfo (fi_info c), FiFreeinfo (hints c)])
            else
             (let (ret, a) = fi_av_open P h (domain c) max_endpoints;
                  h = h @ [FiAvOpen (domain c) max_endpoints];
                  c = c\<lparr>av := a\<rparr>
              in if ret \<noteq> 0 then
                   (ERR_CONTEXT,
                    c\<lparr>domain := None, fabric := None, fi_info := None, hints := None\<rparr>,
                    h @ [FiClose (domain c), FiClose (fabric c), FiFreeinfo (fi_info c),
                         FiFreeinfo (hints c)])
              else
                open_cqs P max_cqe num_cq_list 0
                  (c\<lparr>cq_list := resize num_cq_list None (cq_list c)\<rparr>, h))))))"

subsection \<open>Memory regions\<close>

text \<open>
  \<open>max_mr_size\<close> is \<^verbatim>\<open>(size_t) globalConfig().max_mr_size\<close>, the configured maximum; the
  caller's \<^verbatim>\<open>access\<close> bit mask is the set of its flags.
\<close>

definition registerMemoryRegionInternal ::
  "provider \<Rightarrow> 64 word \<Rightarrow> efa_context \<Rightarrow> 64 word \<Rightarrow> 64 word \<Rightarrow> fi_flag set
     \<Rightarrow> EfaMemoryRegionMeta \<times> call list \<Rightarrow> rc \<times> EfaMemoryRegionMeta \<times> call list"
where
  "registerMemoryRegionInternal P max_mr_size c a len access s =
     (let (mrMeta, h) = s;
          len = (if len > max_mr_size then max_mr_size else len);
          mrMeta = mrMeta\<lparr>addr := a, length_mr := len\<rparr>;
          fi_access = {};
          fi_access = (if FI_READ \<in> access then insert FI_READ fi_access else fi_access);
          fi_access = (if FI_WRITE \<in> access then insert FI_WRITE fi_access else fi_access);
          fi_access =
            (if FI_REMOTE_READ \<in> access then insert FI_REMOTE_READ fi_access else fi_access);
          fi_access =
            (if FI_REMOTE_WRITE \<in> access then insert FI_REMOTE_WRITE fi_access else fi_access);
          fi_access = {FI_READ, FI_WRITE, FI_REMOTE_READ, FI_REMOTE_WRITE};
          (ret, m) = fi_mr_reg P h (domain c) a len fi_access;
          h = h @ [FiMrReg (domain c) a len fi_access];
          mrMeta = mrMeta\<lparr>mr := m\<rparr>
      in if ret \<noteq> 0 then (ERR_CONTEXT, mrMeta, h)
         else (RC_OK, mrMeta\<lparr>key := fi_mr_key P (mr mrMeta)\<rparr>, h))"

text \<open>
  The local \<^verbatim>\<open>EfaMemoryRegionMeta mrMeta\<close> of \<^verbatim>\<open>registerMemoryRegion\<close> before
  \<open>registerMemoryRegionInternal\<close> fills it; every field is written before the entry is
  stored.
\<close>

definition mrMeta_init :: EfaMemoryRegionMeta where
  "mrMeta_init = \<lparr>addr = 0, length_mr = 0, mr = None, key = 0\<rparr>"

definition registerMemoryRegion ::
  "provider \<Rightarrow> 64 word \<Rightarrow> 64 word \<Rightarrow> 64 word \<Rightarrow> fi_flag set \<Rightarrow> efa_context \<times> call list
     \<Rightarrow> rc \<times> efa_context \<times> call list"
where
  "registerMemoryRegion P max_mr_size a len access s =
     (let (c, h) = s;
          (ret, mrMeta, h) =
             registerMemoryRegionInternal P max_mr_size c a len access (mrMeta_init, h)
      in if ret \<noteq> RC_OK then (ret, c, h)
         else (RC_OK, c\<lparr>mr_map := (mr_map c)(a \<mapsto> mrMeta)\<rparr>, h))"

definition unregisterMemoryRegion ::
  "provider \<Rightarrow> 64 word \<Rightarrow> efa_context \<times> call list \<Rightarrow> rc \<times> efa_context \<times> call list"
where
  "unregisterMemoryRegion P a s =
     (let (c, h) = s in
      case mr_map c a of
        None \<Rightarrow> (RC_OK, c, h)
      | Some m \<Rightarrow>
          if mr m \<noteq> None then
            (let ret = fi_close P h (mr m);
                 h = h @ [FiClose (mr m)]
             in if ret \<noteq> 0 then (ERR_CONTEXT, c, h)
                else (RC_OK, c\<lparr>mr_map := (mr_map c)(a := None)\<rparr>, h))
          else (RC_OK, c\<lparr>mr_map := (mr_map c)(a := None)\<rparr>, h))"

definition rkey :: "efa_context \<Rightarrow> 64 word \<Rightarrow> 64 word" where
  "rkey c a = (case mr_map c a of
                 Some m \<Rightarrow> if mr m \<noteq> None then key m else 0
               | None \<Rightarrow> 0)"

definition lkey :: "provider \<Rightarrow> efa_context \<Rightarrow> 64 word \<Rightarrow> 64 word" where
  "lkey P c a = (case mr_map c a of
                   Some m \<Rightarrow> if mr m \<noteq> None then fi_mr_key P (mr m) else 0
                 | None \<Rightarrow> 0)"

subsection \<open>Slices behind pointers\<close>

text \<open>
  A \<^verbatim>\<open>Transport::Slice *\<close> is \<open>None\<close> (\<^verbatim>\<open>nullptr\<close>) or \<open>Some a\<close>, an address; the
  slices live in a heap, a map from addresses to slices. Reading or writing through a
  pointer that is null or points to no slice is undefined behaviour in C++: the model
  stops with \<open>SegFault\<close>.
\<close>

type_synonym slice_ptr = "nat option"

type_synonym slice_heap = "nat \<rightharpoonup> slice"

datatype fault = SegFault

definition deref :: "slice_heap \<Rightarrow> slice_ptr \<Rightarrow> slice option" where
  "deref hp p = (case p of None \<Rightarrow> None | Some a \<Rightarrow> hp a)"

text \<open>
  Modelled from the spec: \<^verbatim>\<open>Slice::markSuccess\<close> (declared in \<^verbatim>\<open>transport.h\<close>, which is
  not among the sources) marks the slice successful.
\<close>

definition markSuccess :: "slice \<Rightarrow> slice" where
  "markSuccess s = s\<lparr>status_slice := SUCCESS\<rparr>"

subsection \<open>\<^verbatim>\<open>EfaContext::submitPostSend\<close>\<close>

fun mark_slices :: "slice_ptr list \<Rightarrow> slice_heap \<Rightarrow> fault + slice_heap" where
  "mark_slices [] hp = Inr hp"
| "mark_slices (p # ps) hp =
     (case p of
        None \<Rightarrow> mark_slices ps hp
      | Some a \<Rightarrow>
          (case hp a of
             None \<Rightarrow> Inl SegFault
           | Some s \<Rightarrow> mark_slices ps (hp(a \<mapsto> markSuccess s))))"

definition EfaContext_submitPostSend ::
  "slice_ptr list \<Rightarrow> efa_context \<times> call list \<times> slice_heap
     \<Rightarrow> fault + (rc \<times> efa_context \<times> call list \<times> slice_heap)"
where
  "EfaContext_submitPostSend slice_list s =
     (let (c, h, hp) = s in
      case mark_slices slice_list hp of
        Inl f \<Rightarrow> Inl f
      | Inr hp' \<Rightarrow> Inr (RC_OK, c, h, hp'))"

subsection \<open>\<^verbatim>\<open>EfaEndPoint\<close>: construction, peer path, disconnect\<close>

text \<open>
  Modelled from the spec: \<^verbatim>\<open>connected()\<close> (defined in \<^verbatim>\<open>efa_endpoint.h\<close>, which is not
  among the sources) holds when the state is \<^verbatim>\<open>CONNECTED\<close>.
\<close>

definition connected :: "efa_endpoint \<Rightarrow> bool" where
  "connected e = (status e = CONNECTED)"

definition disconnectUnlocked :: "efa_endpoint \<Rightarrow> efa_endpoint" where
  "disconnectUnlocked e = e\<lparr>peer_fi_addr := FI_ADDR_UNSPEC, status := UNCONNECTED\<rparr>"

definition setPeerNicPath :: "string \<Rightarrow> efa_endpoint \<Rightarrow> efa_endpoint" where
  "setPeerNicPath path e =
     (let e = (if connected e then disconnectUnlocked e else e)
      in e\<lparr>ep_peer_nic_path := path\<rparr>)"

text \<open>
  What \<^verbatim>\<open>fi_getname\<close> leaves in the buffer: the bytes it wrote over the start of the
  buffer, the rest as it was.
\<close>

definition write_buf :: "'a list \<Rightarrow> 'a list \<Rightarrow> 'a list" where
  "write_buf bs buf = take (length buf) bs @ drop (length bs) buf"

definition EfaEndPoint_construct ::
  "provider \<Rightarrow> efa_context \<Rightarrow> fid \<Rightarrow> nat \<Rightarrow> nat \<Rightarrow> nat \<Rightarrow> nat \<Rightarrow> efa_endpoint \<times> call list
     \<Rightarrow> rc \<times> efa_endpoint \<times> call list"
where
  "EfaEndPoint_construct P c q num_qp_list max_sge max_wr max_inline s =
     (let (e, h) = s in
      if status e \<noteq> INITIALIZING then (ERR_ENDPOINT, e, h)
      else
       (let e = e\<lparr>tx_cq := q, rx_cq := q, max_wr_depth := max_wr\<rparr>;
            (ret, p) = fi_endpoint P h (domain c) (fi_info c);
            h = h @ [FiEndpoint (domain c) (fi_info c)];
            e = e\<lparr>ep := p\<rparr>
        in if ret \<noteq> 0 then (ERR_ENDPOINT, e, h)
        else
         (let ret = fi_ep_bind P h (ep e) (av c) {};
              h = h @ [FiEpBind (ep e) (av c) {}]
          in if ret \<noteq> 0 then (ERR_ENDPOINT, e\<lparr>ep := None\<rparr>, h @ [FiClose (ep e)])
          else
           (let ret = fi_ep_bind P h (ep e) (tx_cq e) {FI_TRANSMIT};
                h = h @ [FiEpBind (ep e) (tx_cq e) {FI_TRANSMIT}]
            in if ret \<noteq> 0 then (ERR_ENDPOINT, e\<lparr>ep := None\<rparr>, h @ [FiClose (ep e)])
            else
             (let ret = fi_ep_bind P h (ep e) (rx_cq e) {FI_RECV};
                  h = h @ [FiEpBind (ep e) (rx_cq e) {FI_RECV}]
              in if ret \<noteq> 0 then (ERR_ENDPOINT, e\<lparr>ep := None\<rparr>, h @ [FiClose (ep e)])
              else
               (let ret = fi_enable P h (ep e);
                    h = h @ [FiEnable (ep e)]
                in if ret \<noteq> 0 then (ERR_ENDPOINT, e\<lparr>ep := None\<rparr>, h @ [FiClose (ep e)])
                else
                 (let e = e\<lparr>local_addr_len := 64\<rparr>;
                      e = e\<lparr>local_addr := resize (local_addr_len e) 0 (local_addr e)\<rparr>;
                      (ret, bs, n) = fi_getname P h (ep e) (local_addr_len e);
                      h = h @ [FiGetname (ep e) (local_addr_len e)];
                      e = e\<lparr>local_addr := write_buf bs (local_addr e), local_addr_len := n\<rparr>
                  in if ret \<noteq> 0 then
                       (ERR_ENDPOINT, e\<lparr>ep := None\<rparr>, h @ [FiClose (ep e)])
                     else
                       (RC_OK,
                        e\<lparr>local_addr := resize (local_addr_len e) 0 (local_addr e),
                          status := UNCONNECTED\<rparr>,
                        h))))))))"

subsection \<open>The endpoint store and \<^verbatim>\<open>EfaContext::endpoint\<close>\<close>

definition EfaEndpointStore_get :: "EfaEndpointStore \<Rightarrow> string \<Rightarrow> efa_endpoint option" where
  "EfaEndpointStore_get st path = (case st path of Some e \<Rightarrow> e | None \<Rightarrow> None)"

definition EfaEndpointStore_add ::
  "string \<Rightarrow> efa_endpoint option \<Rightarrow> EfaEndpointStore \<Rightarrow> EfaEndpointStore"
where
  "EfaEndpointStore_add path e st = st(path \<mapsto> e)"

text \<open>
  The default arguments of \<^verbatim>\<open>EfaEndPoint::construct\<close> are in the header; \<open>dflt\<close> carries
  them (\<^verbatim>\<open>num_qp_list\<close>, \<^verbatim>\<open>max_sge\<close>, \<^verbatim>\<open>max_wr\<close>, \<^verbatim>\<open>max_inline\<close>). The result is the
  returned \<^verbatim>\<open>shared_ptr\<close>, the context and the history.
\<close>

definition EfaContext_endpoint ::
  "provider \<Rightarrow> nat \<times> nat \<times> nat \<times> nat \<Rightarrow> string \<Rightarrow> efa_context \<times> call list
     \<Rightarrow> efa_endpoint option \<times> efa_context \<times> call list"
where
  "EfaContext_endpoint P dflt path s =
     (let (c, h) = s in
      case endpoint_store c of
        None \<Rightarrow> (None, c, h)
      | Some st \<Rightarrow>
         (case EfaEndpointStore_get st path of
            Some e \<Rightarrow> (Some e, c, h)
          | None \<Rightarrow>
             (let new_endpoint = EfaEndPoint;
                  (num_qp_list, max_sge, max_wr, max_inline) = dflt;
                  (ret, new_endpoint, h) =
                    (case cq_list c of
                       Some q # _ \<Rightarrow>
                         EfaEndPoint_construct P c (cq q) num_qp_list max_sge max_wr max_inline
                           (new_endpoint, h)
                     | _ \<Rightarrow> (RC_OK, new_endpoint, h))
              in if ret \<noteq> RC_OK then (None, c, h)
                 else
                  (let new_endpoint = setPeerNicPath path new_endpoint
                   in (Some new_endpoint,
                       c\<lparr>endpoint_store := Some (EfaEndpointStore_add path (Some new_endpoint) st)\<rparr>,
                       h)))))"

subsection \<open>Addresses as hexadecimal text\<close>

text \<open>
  \<^verbatim>\<open>getLocalAddr\<close> prints every byte of \<^verbatim>\<open>local_addr_\<close> with
  \<^verbatim>\<open>std::hex << std::setw(2) << std::setfill('0')\<close>: two lowercase digits.
\<close>

definition hex_digit :: "nat \<Rightarrow> char" where
  "hex_digit n = ''0123456789abcdef'' ! n"

definition hex_byte :: "8 word \<Rightarrow> string" where
  "hex_byte b = [hex_digit (unat b div 16), hex_digit (unat b mod 16)]"

definition getLocalAddr :: "efa_endpoint \<Rightarrow> string" where
  "getLocalAddr e = concat (map hex_byte (local_addr e))"

text \<open>
  \<^verbatim>\<open>strtol(s, nullptr, 16)\<close> of the C library: white space is skipped, then an optional
  sign, then an optional \<^verbatim>\<open>0x\<close> or \<^verbatim>\<open>0X\<close> that a hexadecimal digit follows, then the
  longest run of hexadecimal digits (the value is 0 when there is none); a value out of
  the range of a 64-bit \<^verbatim>\<open>long\<close> is clamped to it.
\<close>

definition isspace :: "char \<Rightarrow> bool" where
  "isspace ch = (ch \<in> {CHR '' '', CHR 0x09, CHR 0x0A, CHR 0x0B, CHR 0x0C, CHR 0x0D})"

definition xdigit :: "char \<Rightarrow> nat option" where
  "xdigit ch =
     (let n = (of_char ch :: nat) in
      if 48 \<le> n \<and> n \<le> 57 then Some (n - 48)
      else if 97 \<le> n \<and> n \<le> 102 then Some (n - 87)
      else if 65 \<le> n \<and> n \<le> 70 then Some (n - 55)
      else None)"

definition strip_sign :: "string \<Rightarrow> bool \<times> string" where
  "strip_sign s =
     (case s of
        [] \<Rightarrow> (False, s)
      | ch # r \<Rightarrow>
          if ch = CHR ''-'' then (True, r)
          else if ch = CHR ''+'' then (False, r)
          else (False, s))"

definition strip_0x :: "string \<Rightarrow> string" where
  "strip_0x s =
     (case s of
        a # b # d # r \<Rightarrow>
          if a = CHR ''0'' \<and> (b = CHR ''x'' \<or> b = CHR ''X'') \<and> xdigit d \<noteq> None
          then d # r else s
      | _ \<Rightarrow> s)"

fun hex_value :: "int \<Rightarrow> string \<Rightarrow> int" where
  "hex_value acc [] = acc"
| "hex_value acc (ch # r) =
     (case xdigit ch of
        None \<Rightarrow> acc
      | Some d \<Rightarrow> hex_value (acc * 16 + int d) r)"

definition strtol16 :: "string \<Rightarrow> int" where
  "strtol16 s =
     (let (neg, s) = strip_sign (dropWhile isspace s);
          v = hex_value 0 (strip_0x s)
      in if neg then max (- v) (- (2 ^ 63)) else min v (2 ^ 63 - 1))"

text \<open>The loop of \<^verbatim>\<open>insertPeerAddr\<close>: two characters at a time, the last may be alone.\<close>

fun hex_to_bin :: "string \<Rightarrow> 8 word list" where
  "hex_to_bin [] = []"
| "hex_to_bin [a] = [word_of_int (strtol16 [a])]"
| "hex_to_bin (a # b # r) = word_of_int (strtol16 [a, b]) # hex_to_bin r"

text \<open>
  \<^verbatim>\<open>fi_av_insert\<close> stores the address handle through \<^verbatim>\<open>&peer_fi_addr_\<close> and returns the
  number of addresses inserted.
\<close>

definition insertPeerAddr ::
  "provider \<Rightarrow> efa_context \<Rightarrow> string \<Rightarrow> efa_endpoint \<times> call list
     \<Rightarrow> rc \<times> efa_endpoint \<times> call list"
where
  "insertPeerAddr P c peer_addr s =
     (let (e, h) = s;
          addr_bin = hex_to_bin peer_addr;
          (ret, fa) = fi_av_insert P h (av c) addr_bin;
          h = h @ [FiAvInsert (av c) addr_bin];
          e = e\<lparr>peer_fi_addr := fa\<rparr>
      in if ret \<noteq> 1 then (ERR_ENDPOINT, e, h) else (RC_OK, e, h))"

subsection \<open>Connection establishment\<close>

text \<open>
  Modelled from the spec: \<^verbatim>\<open>getServerNameFromNicPath\<close> and \<^verbatim>\<open>getNicNameFromNicPath\<close>
  (helpers that are not among the sources) split a peer path
  \<^verbatim>\<open><server-identity>@<device-name>\<close> at its first \<^verbatim>\<open>@\<close>; a path with no \<^verbatim>\<open>@\<close> gives
  the empty string.
\<close>

definition getServerNameFromNicPath :: "string \<Rightarrow> string" where
  "getServerNameFromNicPath path =
     (if CHR ''@'' \<in> set path then takeWhile (\<lambda>ch. ch \<noteq> CHR ''@'') path else [])"

definition getNicNameFromNicPath :: "string \<Rightarrow> string" where
  "getNicNameFromNicPath path =
     (if CHR ''@'' \<in> set path then tl (dropWhile (\<lambda>ch. ch \<noteq> CHR ''@'') path) else [])"

definition HandShakeDesc_init :: HandShakeDesc where
  "HandShakeDesc_init = \<lparr>local_nic_path = [], peer_nic_path = [], reply_msg = []\<rparr>"

text \<open>The request \<^verbatim>\<open>local_desc\<close> that \<^verbatim>\<open>setupConnectionsByActive\<close> fills in.\<close>

definition active_local_desc :: "efa_context \<Rightarrow> efa_endpoint \<Rightarrow> HandShakeDesc" where
  "active_local_desc c e = HandShakeDesc_init\<lparr>local_nic_path := nicPath c,
     peer_nic_path := ep_peer_nic_path e, reply_msg := getLocalAddr e\<rparr>"

definition setupConnectionsByActive ::
  "provider \<Rightarrow> efa_context \<Rightarrow> efa_endpoint \<times> call list \<Rightarrow> rc \<times> efa_endpoint \<times> call list"
where
  "setupConnectionsByActive P c s =
     (let (e, h) = s in
      if connected e then (RC_OK, e, h)
      else if nicPath c = ep_peer_nic_path e then
        (let (ret, e, h) = insertPeerAddr P c (getLocalAddr e) (e, h)
         in if ret \<noteq> RC_OK then (ret, e, h)
            else (RC_OK, e\<lparr>status := CONNECTED\<rparr>, h))
      else
        (let local_desc = active_local_desc c e;
             peer_server_name = getServerNameFromNicPath (ep_peer_nic_path e);
             peer_nic_name = getNicNameFromNicPath (ep_peer_nic_path e)
         in if peer_server_name = [] \<or> peer_nic_name = [] then (ERR_INVALID_ARGUMENT, e, h)
         else
          (let (rc, peer_desc) = sendHandshake P h peer_server_name local_desc;
               h = h @ [SendHandshake peer_server_name local_desc]
           in if rc \<noteq> RC_OK then (rc, e, h)
           else if reply_msg peer_desc = [] then (ERR_REJECT_HANDSHAKE, e, h)
           else
            (let (rc, e, h) = insertPeerAddr P c (reply_msg peer_desc) (e, h)
             in if rc \<noteq> RC_OK then (rc, e, h)
                else (RC_OK, e\<lparr>status := CONNECTED\<rparr>, h)))))"

text \<open>The result carries the reply descriptor \<^verbatim>\<open>local_desc\<close> as the call leaves it.\<close>

definition setupConnectionsByPassive ::
  "provider \<Rightarrow> efa_context \<Rightarrow> HandShakeDesc \<Rightarrow> HandShakeDesc \<Rightarrow> efa_endpoint \<times> call list
     \<Rightarrow> rc \<times> HandShakeDesc \<times> efa_endpoint \<times> call list"
where
  "setupConnectionsByPassive P c peer_desc local_desc s =
     (let (e, h) = s;
          e = (if connected e then disconnectUnlocked e else e)
      in if peer_nic_path peer_desc \<noteq> nicPath c
            \<or> local_nic_path peer_desc \<noteq> ep_peer_nic_path e then
           (ERR_REJECT_HANDSHAKE, local_desc\<lparr>reply_msg := []\<rparr>, e, h)
         else if reply_msg peer_desc = [] then
           (ERR_REJECT_HANDSHAKE, local_desc\<lparr>reply_msg := []\<rparr>, e, h)
         else
          (let (ret, e, h) = insertPeerAddr P c (reply_msg peer_desc) (e, h)
           in if ret \<noteq> RC_OK then (ret, local_desc\<lparr>reply_msg := []\<rparr>, e, h)
              else
                (RC_OK,
                 local_desc\<lparr>local_nic_path := nicPath c,
                   peer_nic_path := ep_peer_nic_path e, reply_msg := getLocalAddr e\<rparr>,
                 e\<lparr>status := CONNECTED\<rparr>, h)))"

subsection \<open>\<^verbatim>\<open>EfaEndPoint::submitPostSend\<close>\<close>

text \<open>
  The state of a submission: the endpoint, the history of provider calls, the heap of
  slices, and the two vectors the caller passes by reference.
\<close>

record post_state =
  pe :: efa_endpoint
  ph :: "call list"
  heap :: slice_heap
  slice_list :: "slice_ptr list"
  failed_slice_list :: "slice_ptr list"

definition write_req_of :: "efa_endpoint \<Rightarrow> slice \<Rightarrow> write_req" where
  "write_req_of e s = \<lparr>wr_ep = ep e, wr_buf = source_addr s, wr_len = length_slice s,
     wr_desc = None, wr_dest = peer_fi_addr e, wr_raddr = dest_addr s, wr_rkey = dest_rkey s\<rparr>"

text \<open>\<^verbatim>\<open>vector::erase\<close> at the iterator; \<open>it\<close> is the iterator's index.\<close>

definition erase :: "nat \<Rightarrow> 'a list \<Rightarrow> 'a list" where
  "erase it xs = take it xs @ drop (Suc it) xs"

function post_loop :: "provider \<Rightarrow> nat \<Rightarrow> post_state \<Rightarrow> fault + post_state" where
  "post_loop P it st =
     (if it < length (slice_list st) then
        (case slice_list st ! it of
           None \<Rightarrow> Inl SegFault
         | Some a \<Rightarrow>
            (case heap st a of
               None \<Rightarrow> Inl SegFault
             | Some s \<Rightarrow>
                (let req = write_req_of (pe st) s;
                     ret = fi_write P (ph st) req;
                     st = st\<lparr>ph := ph st @ [FiWrite req]\<rparr>
                 in if ret = 0 then
                      post_loop P it
                        (st\<lparr>pe := (pe st)\<lparr>wr_depth := wr_depth (pe st) + 1\<rparr>,
                           heap := (heap st)(a \<mapsto> markSuccess s),
                           slice_list := erase it (slice_list st)\<rparr>)
                    else if ret = - FI_EAGAIN then post_loop P (Suc it) st
                    else
                      post_loop P it
                        (st\<lparr>failed_slice_list := failed_slice_list st @ [Some a],
                           slice_list := erase it (slice_list st)\<rparr>))))
      else Inr st)"
  by pat_completeness auto
termination
  by (relation "measure (\<lambda>(P, it, st). length (slice_list st) - it)")
     (auto simp: erase_def)

declare post_loop.simps [simp del]

definition EfaEndPoint_submitPostSend ::
  "provider \<Rightarrow> efa_context \<Rightarrow> post_state \<Rightarrow> fault + (rc \<times> post_state)"
where
  "EfaEndPoint_submitPostSend P c st =
     (let (ret, e, h) =
            (if \<not> connected (pe st) then setupConnectionsByActive P c (pe st, ph st)
             else (RC_OK, pe st, ph st));
          st = st\<lparr>pe := e, ph := h\<rparr>
      in if ret \<noteq> RC_OK then
           Inr (ret, st\<lparr>failed_slice_list := failed_slice_list st @ slice_list st,
                        slice_list := []\<rparr>)
         else
           (case post_loop P 0 st of
              Inl f \<Rightarrow> Inl f
            | Inr st' \<Rightarrow> Inr (RC_OK, st')))"

subsection \<open>A provider on which every call succeeds\<close>

definition provider_ok :: provider where
  "provider_ok = \<lparr>
     fi_allocinfo = (\<lambda>h. Some 1),
     fi_getinfo = (\<lambda>h hn hs. (0, Some 2)),
     fi_fabric = (\<lambda>h i. (0, Some 3)),
     fi_domain = (\<lambda>h f i. (0, Some 4)),
     fi_av_open = (\<lambda>h d n. (0, Some 5)),
     fi_cq_open = (\<lambda>h d n. (0, Some 6)),
     fi_close = (\<lambda>h f. 0),
     fi_mr_reg = (\<lambda>h d a l acc. (0, Some 7)),
     fi_mr_key = (\<lambda>m. 77),
     fi_endpoint = (\<lambda>h d i. (0, Some 8)),
     fi_ep_bind = (\<lambda>h e f fl. 0),
     fi_enable = (\<lambda>h e. 0),
     fi_getname = (\<lambda>h e n. (0, [0xAB, 0x0C], 2)),
     fi_av_insert = (\<lambda>h a bs. (1, 9)),
     fi_write = (\<lambda>h r. 0),
     sendHandshake = (\<lambda>h srv d.
        (RC_OK, \<lparr>local_nic_path = peer_nic_path d, peer_nic_path = local_nic_path d,
                 reply_msg = ''1f2e''\<rparr>))\<rparr>"

subsection \<open>The submission loop, slice by slice\<close>

text \<open>
  The loop of \<open>post_loop\<close> again, by recursion on the part of the vector not yet visited;
  \<open>slice_list\<close> of the state collects the slices the loop steps over. Lemma
  \<open>post_loop_eq\<close> shows that the two agree.
\<close>

fun post_slices :: "provider \<Rightarrow> slice_ptr list \<Rightarrow> post_state \<Rightarrow> fault + post_state" where
  "post_slices P [] st = Inr st"
| "post_slices P (p # ps) st =
     (case p of
        None \<Rightarrow> Inl SegFault
      | Some a \<Rightarrow>
         (case heap st a of
            None \<Rightarrow> Inl SegFault
          | Some s \<Rightarrow>
             (let req = write_req_of (pe st) s;
                  ret = fi_write P (ph st) req;
                  st = st\<lparr>ph := ph st @ [FiWrite req]\<rparr>
              in if ret = 0 then
                   post_slices P ps
                     (st\<lparr>pe := (pe st)\<lparr>wr_depth := wr_depth (pe st) + 1\<rparr>,
                        heap := (heap st)(a \<mapsto> markSuccess s)\<rparr>)
                 else if ret = - FI_EAGAIN then
                   post_slices P ps (st\<lparr>slice_list := slice_list st @ [p]\<rparr>)
                 else
                   post_slices P ps (st\<lparr>failed_slice_list := failed_slice_list st @ [p]\<rparr>))))"

text \<open>
  The requests the loop posts for a list of slices, and what the provider answers to
  them: each answer is asked with the history that the earlier posts have extended.
  \<open>post_outcomes\<close> pairs every slice of the list with the answer to its post.
\<close>

definition posted_reqs :: "efa_endpoint \<Rightarrow> slice_heap \<Rightarrow> slice_ptr list \<Rightarrow> write_req list" where
  "posted_reqs e hp ps = List.map_filter (\<lambda>p. map_option (write_req_of e) (deref hp p)) ps"

fun post_results :: "provider \<Rightarrow> call list \<Rightarrow> write_req list \<Rightarrow> int list" where
  "post_results P h [] = []"
| "post_results P h (r # rs) = fi_write P h r # post_results P (h @ [FiWrite r]) rs"

definition post_outcomes ::
  "provider \<Rightarrow> efa_endpoint \<Rightarrow> call list \<Rightarrow> slice_heap \<Rightarrow> slice_ptr list
     \<Rightarrow> (slice_ptr \<times> int) list" where
  "post_outcomes P e h hp ps = zip ps (post_results P h (posted_reqs e hp ps))"

subsection \<open>Example states\<close>

text \<open>
  A context of host \<^verbatim>\<open>hostA\<close> with every handle set, an unconnected endpoint of that
  context to a given peer, and a heap of three pending slices.
\<close>

definition ctxA :: efa_context where
  "ctxA = (EfaContext ''hostA'' ''efa0'')\<lparr>fi_info := Some 2, hints := Some 1, fabric := Some 3,
     domain := Some 4, av := Some 5, cq_list := [Some \<lparr>cq = Some 6\<rparr>],
     endpoint_store := Some Map.empty\<rparr>"

definition epA :: "string \<Rightarrow> efa_endpoint" where
  "epA peer = EfaEndPoint\<lparr>status := UNCONNECTED, ep := Some 8, tx_cq := Some 6, rx_cq := Some 6,
     local_addr := [0xAB, 0x0C], local_addr_len := 2, max_wr_depth := 256,
     ep_peer_nic_path := peer\<rparr>"

definition slices3 :: slice_heap where
  "slices3 = [1 \<mapsto> \<lparr>source_addr = 0x1000, length_slice = 64, dest_addr = 0x9000, dest_rkey = 5,
                     status_slice = PENDING\<rparr>,
              2 \<mapsto> \<lparr>source_addr = 0x2000, length_slice = 64, dest_addr = 0xA000, dest_rkey = 5,
                     status_slice = PENDING\<rparr>,
              3 \<mapsto> \<lparr>source_addr = 0x3000, length_slice = 64, dest_addr = 0xB000, dest_rkey = 5,
                     status_slice = PENDING\<rparr>]"

section \<open>Properties of the fabric context\<close>

subsection \<open>Construction\<close>

text \<open>
  C1. Every failing step of \<^verbatim>\<open>EfaContext::construct\<close> should leave all handles null.
  The branch for a failing \<^verbatim>\<open>fi_cq_open\<close> returns \<^verbatim>\<open>ERR_CONTEXT\<close> and releases nothing:
  on a fresh context, with one completion queue asked for and a provider whose
  \<^verbatim>\<open>fi_cq_open\<close> fails, \<open>construct\<close> returns the error with \<open>hints\<close>, \<open>fi_info\<close>,
  \<open>fabric\<close>, \<open>domain\<close> and \<open>av\<close> still set, the queue list resized to one null entry,
  and neither \<^verbatim>\<open>fi_close\<close> nor \<^verbatim>\<open>fi_freeinfo\<close> called.
\<close>

theorem construct_cq_open_failure_keeps_handles:
  "construct (provider_ok\<lparr>fi_cq_open := (\<lambda>h d n. (- 12, None))\<rparr>) 1 1 1 0 256 256
     (EfaContext ''hostA'' ''efa0'', [])
   = (ERR_CONTEXT,
      \<lparr>local_server_name = ''hostA'', device_name = ''efa0'',
       fi_info = Some 2, hints = Some 1, fabric = Some 3, domain = Some 4, av = Some 5,
       cq_list = [None], mr_map = Map.empty, endpoint_store = Some Map.empty\<rparr>,
      [FiAllocinfo, FiGetinfo (Some 1) (efa_hints ''efa0''), FiFabric (Some 2),
       FiDomain (Some 3) (Some 2), FiAvOpen (Some 4) 256, FiCqOpen (Some 4) 256])"
  by (simp add: construct_def provider_ok_def EfaContext_def resize_def)

text \<open>
  The five earlier branches do release what they hold. On a fresh context, and with a
  provider that leaves a handle null when the call that should set it fails, a failing
  \<open>construct\<close> either leaves every handle null or has failed in \<^verbatim>\<open>fi_cq_open\<close>, its
  last provider call.
\<close>

lemma open_cqs_failure:
  "open_cqs P max_cqe n i (c, h) = (r, c', h') \<Longrightarrow> r \<noteq> RC_OK \<Longrightarrow>
   \<exists>hs q k. h' = hs @ [FiCqOpen q k]"
proof (induction P max_cqe n i "(c, h)" arbitrary: c h rule: open_cqs.induct)
  case (1 P max_cqe n i c h)
  show ?case
  proof (cases "i < n")
    case False
    with "1.prems" show ?thesis by simp
  next
    case True
    obtain ret q where call: "fi_cq_open P h (domain c) max_cqe = (ret, q)"
      by (cases "fi_cq_open P h (domain c) max_cqe")
    show ?thesis
    proof (cases "ret = 0")
      case False
      with True call "1.prems" show ?thesis by auto
    next
      case ret0: True
      with True call "1.prems" "1.hyps" show ?thesis
        by (auto simp del: open_cqs.simps simp add: open_cqs.simps [of P max_cqe n i])
    qed
  qed
qed

lemma construct_failure_before_queues:
  assumes run: "construct P n ncc port gid max_cqe max_ep (EfaContext name dev, h) = (r, c, h')"
    and fail: "r \<noteq> RC_OK"
    and c_getinfo: "\<And>h a b. fst (fi_getinfo P h a b) \<noteq> 0 \<Longrightarrow> snd (fi_getinfo P h a b) = None"
    and c_fabric: "\<And>h a. fst (fi_fabric P h a) \<noteq> 0 \<Longrightarrow> snd (fi_fabric P h a) = None"
    and c_domain: "\<And>h a b. fst (fi_domain P h a b) \<noteq> 0 \<Longrightarrow> snd (fi_domain P h a b) = None"
    and c_av: "\<And>h a b. fst (fi_av_open P h a b) \<noteq> 0 \<Longrightarrow> snd (fi_av_open P h a b) = None"
  shows "(hints c = None \<and> fi_info c = None \<and> fabric c = None \<and> domain c = None \<and> av c = None
          \<and> cq_list c = [])
       \<or> (\<exists>hs q k. h' = hs @ [FiCqOpen q k])"
proof -
  let ?hn = "fi_allocinfo P h"
  let ?ha = "h @ [FiAllocinfo]"
  obtain r1 inf where g: "fi_getinfo P ?ha ?hn (efa_hints dev) = (r1, inf)"
    by force
  let ?hb = "?ha @ [FiGetinfo ?hn (efa_hints dev)]"
  obtain r2 fab where f: "fi_fabric P ?hb inf = (r2, fab)"
    by force
  let ?hc = "?hb @ [FiFabric inf]"
  obtain r3 dom where d: "fi_domain P ?hc fab inf = (r3, dom)"
    by force
  let ?hd = "?hc @ [FiDomain fab inf]"
  obtain r4 a where a: "fi_av_open P ?hd dom max_ep = (r4, a)"
    by force
  consider (alloc) "?hn = None"
    | (info) "?hn \<noteq> None" "r1 \<noteq> 0"
    | (fab) "?hn \<noteq> None" "r1 = 0" "r2 \<noteq> 0"
    | (dom) "?hn \<noteq> None" "r1 = 0" "r2 = 0" "r3 \<noteq> 0"
    | (av) "?hn \<noteq> None" "r1 = 0" "r2 = 0" "r3 = 0" "r4 \<noteq> 0"
    | (cqs) "?hn \<noteq> None" "r1 = 0" "r2 = 0" "r3 = 0" "r4 = 0"
    by blast
  then show ?thesis
  proof cases
    case alloc
    with run show ?thesis
      by (auto simp: construct_def EfaContext_def)
  next
    case info
    moreover from info g c_getinfo [of ?ha ?hn "efa_hints dev"] have "inf = None" by simp
    ultimately show ?thesis using run g
      by (auto simp: construct_def EfaContext_def)
  next
    case fab
    moreover from fab f c_fabric [of ?hb inf] have "fab = None" by simp
    ultimately show ?thesis using run g f
      by (auto simp: construct_def EfaContext_def)
  next
    case dom
    moreover from dom d c_domain [of ?hc fab inf] have "dom = None" by simp
    ultimately show ?thesis using run g f d
      by (auto simp: construct_def EfaContext_def)
  next
    case av
    moreover from av a c_av [of ?hd dom max_ep] have "a = None" by simp
    ultimately show ?thesis using run g f d a
      by (auto simp: construct_def EfaContext_def)
  next
    case cqs
    with run g f d a obtain c1 h1 where "open_cqs P max_cqe n 0 (c1, h1) = (r, c, h')"
      by (auto simp: construct_def EfaContext_def simp del: open_cqs.simps)
    from open_cqs_failure [OF this fail] show ?thesis by blast
  qed
qed


subsection \<open>Memory regions\<close>

lemma unregister_absent:
  "mr_map c a = None \<Longrightarrow> unregisterMemoryRegion P a (c, h) = (RC_OK, c, h)"
  by (simp add: unregisterMemoryRegion_def)

lemma unregister_ok_absent:
  "unregisterMemoryRegion P a (c0, h0) = (RC_OK, c, h) \<Longrightarrow> mr_map c a = None"
  by (auto simp: unregisterMemoryRegion_def Let_def split: option.splits if_splits)

lemma keys_absent: "mr_map c a = None \<Longrightarrow> rkey c a = 0 \<and> lkey P c a = 0"
  by (simp add: rkey_def lkey_def)

text \<open>
  C6. Unregistering an address that has no entry returns success and changes neither the
  registry nor anything else (no provider call is made). After an unregistration that
  returned success, here from the state \<open>(c0, h0)\<close> to \<open>(c, h)\<close>, the address has no entry,
  \<open>rkey\<close> and \<open>lkey\<close> return 0 for it, and unregistering it again is a successful no-op.
\<close>

theorem unregisterMemoryRegion_idempotent:
  "(mr_map c a = None \<longrightarrow>
      unregisterMemoryRegion P a (c, h) = (RC_OK, c, h) \<and> rkey c a = 0 \<and> lkey P c a = 0)
   \<and> (unregisterMemoryRegion P a (c0, h0) = (RC_OK, c, h) \<longrightarrow>
      mr_map c a = None \<and> rkey c a = 0 \<and> lkey P c a = 0
      \<and> unregisterMemoryRegion P a (c, h) = (RC_OK, c, h))"
  using unregister_absent unregister_ok_absent keys_absent by metis

theorem unregisterMemoryRegion_idempotent_witness:
  "mr_map (EfaContext ''hostA'' ''efa0'') 0x1000 = None
   \<and> unregisterMemoryRegion provider_ok 0x1000
        ((EfaContext ''hostA'' ''efa0'')
           \<lparr>mr_map := [0x1000 \<mapsto> \<lparr>addr = 0x1000, length_mr = 4096, mr = Some 7, key = 77\<rparr>]\<rparr>, [])
       = (RC_OK, EfaContext ''hostA'' ''efa0'', [FiClose (Some 7)])
   \<and> unregisterMemoryRegion provider_ok 0x1000 (EfaContext ''hostA'' ''efa0'', [FiClose (Some 7)])
       = (RC_OK, EfaContext ''hostA'' ''efa0'', [FiClose (Some 7)])
   \<and> rkey (EfaContext ''hostA'' ''efa0'') 0x1000 = 0
   \<and> lkey provider_ok (EfaContext ''hostA'' ''efa0'') 0x1000 = 0"
proof -
  let ?c = "EfaContext ''hostA'' ''efa0''"
  let ?before =
    "?c\<lparr>mr_map := [0x1000 \<mapsto> \<lparr>addr = 0x1000, length_mr = 4096, mr = Some 7, key = 77\<rparr>]\<rparr>"
  have absent: "mr_map ?c 0x1000 = None"
    by (simp add: EfaContext_def)
  have first: "unregisterMemoryRegion provider_ok 0x1000 (?before, [])
       = (RC_OK, ?c, [FiClose (Some 7)])"
    by (simp add: unregisterMemoryRegion_def EfaContext_def provider_ok_def)
  from unregisterMemoryRegion_idempotent
         [of ?c "0x1000" provider_ok "[FiClose (Some 7)]" ?before "[]"] absent first
  show ?thesis by simp
qed

text \<open>
  C7. Whether \<open>registerMemoryRegion\<close> succeeds is decided by the provider's answer to the
  one \<^verbatim>\<open>fi_mr_reg\<close> it makes, and that call already carries the clamped length: a length
  above the configured maximum is no reason to fail. When the call succeeds, the entry
  recorded for the address has the configured maximum as its length if the requested
  length exceeds it, and the requested length otherwise.
\<close>

theorem registerMemoryRegion_clamps_length:
  assumes "registerMemoryRegion P max_mr_size a len access (c, h) = (r, c', h')"
  shows "r = (if fst (fi_mr_reg P h (domain c) a (if len > max_mr_size then max_mr_size else len)
                     {FI_READ, FI_WRITE, FI_REMOTE_READ, FI_REMOTE_WRITE}) = 0
              then RC_OK else ERR_CONTEXT)
     \<and> (r = RC_OK \<longrightarrow>
          map_option length_mr (mr_map c' a)
            = Some (if len > max_mr_size then max_mr_size else len))"
  using assms
  by (auto simp: registerMemoryRegion_def registerMemoryRegionInternal_def Let_def
           split: prod.splits if_splits)

theorem registerMemoryRegion_clamps_length_witness:
  "registerMemoryRegion provider_ok 4096 0x1000 10000 {FI_READ} (EfaContext ''hostA'' ''efa0'', [])
     = (RC_OK,
        (EfaContext ''hostA'' ''efa0'')
          \<lparr>mr_map := [0x1000 \<mapsto> \<lparr>addr = 0x1000, length_mr = 4096, mr = Some 7, key = 77\<rparr>]\<rparr>,
        [FiMrReg None 0x1000 4096 {FI_READ, FI_WRITE, FI_REMOTE_READ, FI_REMOTE_WRITE}])
   \<and> map_option length_mr
        (mr_map ((EfaContext ''hostA'' ''efa0'')
          \<lparr>mr_map := [0x1000 \<mapsto> \<lparr>addr = 0x1000, length_mr = 4096, mr = Some 7, key = 77\<rparr>]\<rparr>)
         0x1000) = Some 4096"
proof -
  let ?c = "EfaContext ''hostA'' ''efa0''"
  have run: "registerMemoryRegion provider_ok 4096 0x1000 10000 {FI_READ} (?c, [])
     = (RC_OK,
        ?c\<lparr>mr_map := [0x1000 \<mapsto> \<lparr>addr = 0x1000, length_mr = 4096, mr = Some 7, key = 77\<rparr>]\<rparr>,
        [FiMrReg None 0x1000 4096 {FI_READ, FI_WRITE, FI_REMOTE_READ, FI_REMOTE_WRITE}])"
    by (simp add: registerMemoryRegion_def registerMemoryRegionInternal_def EfaContext_def
          provider_ok_def mrMeta_init_def)
  from registerMemoryRegion_clamps_length [OF run] run show ?thesis by simp
qed

subsection \<open>The context-level submission\<close>

lemma mark_slices_valid:
  "\<forall>p\<in>set ps. p \<noteq> None \<longrightarrow> deref hp p \<noteq> None \<Longrightarrow>
   mark_slices ps hp
     = Inr (\<lambda>a. if Some a \<in> set ps then map_option markSuccess (hp a) else hp a)"
proof (induction ps arbitrary: hp)
  case Nil
  then show ?case by simp
next
  case (Cons p ps)
  show ?case
  proof (cases p)
    case None
    with Cons show ?thesis by simp
  next
    case (Some a)
    with Cons.prems obtain s where s: "hp a = Some s"
      by (auto simp: deref_def)
    let ?hp = "hp(a \<mapsto> markSuccess s)"
    have "\<forall>p\<in>set ps. p \<noteq> None \<longrightarrow> deref ?hp p \<noteq> None"
      using Cons.prems by (auto simp: deref_def)
    then have "mark_slices ps ?hp
       = Inr (\<lambda>b. if Some b \<in> set ps then map_option markSuccess (?hp b) else ?hp b)"
      by (rule Cons.IH)
    moreover have "(\<lambda>b. if Some b \<in> set ps then map_option markSuccess (?hp b) else ?hp b)
       = (\<lambda>b. if Some b \<in> set (p # ps) then map_option markSuccess (hp b) else hp b)"
      using Some s by (auto simp: fun_eq_iff markSuccess_def)
    ultimately show ?thesis using Some s by simp
  qed
qed

text \<open>
  C9. On a list whose non-null pointers all point to slices, the context-level
  \<open>submitPostSend\<close> returns 0 and leaves the context and the history of provider calls as
  they were (no connection is looked at, nothing is posted); in the heap, exactly the
  slices the list points to are marked successful. It has no failed list and no way to
  leave a slice for later.
\<close>

theorem EfaContext_submitPostSend_marks_all:
  assumes "\<forall>p\<in>set ps. p \<noteq> None \<longrightarrow> deref hp p \<noteq> None"
  shows "EfaContext_submitPostSend ps (c, h, hp)
     = Inr (RC_OK, c, h,
            \<lambda>a. if Some a \<in> set ps then map_option markSuccess (hp a) else hp a)"
  by (simp add: EfaContext_submitPostSend_def mark_slices_valid [OF assms])

theorem EfaContext_submitPostSend_marks_all_witness:
  "EfaContext_submitPostSend [Some 1, None, Some 2]
       (EfaContext ''hostA'' ''efa0'', [],
        [1 \<mapsto> \<lparr>source_addr = 0x10, length_slice = 8, dest_addr = 0x20, dest_rkey = 5,
                status_slice = PENDING\<rparr>,
         2 \<mapsto> \<lparr>source_addr = 0x30, length_slice = 8, dest_addr = 0x40, dest_rkey = 5,
                status_slice = FAILED\<rparr>])
     = Inr (RC_OK, EfaContext ''hostA'' ''efa0'', [],
        [1 \<mapsto> \<lparr>source_addr = 0x10, length_slice = 8, dest_addr = 0x20, dest_rkey = 5,
                status_slice = SUCCESS\<rparr>,
         2 \<mapsto> \<lparr>source_addr = 0x30, length_slice = 8, dest_addr = 0x40, dest_rkey = 5,
                status_slice = SUCCESS\<rparr>])"
proof -
  let ?hp = "[1 \<mapsto> \<lparr>source_addr = 0x10, length_slice = 8, dest_addr = 0x20, dest_rkey = 5,
                     status_slice = PENDING\<rparr>,
              2 \<mapsto> \<lparr>source_addr = 0x30, length_slice = 8, dest_addr = 0x40, dest_rkey = 5,
                     status_slice = FAILED\<rparr>] :: slice_heap"
  have valid: "\<forall>p\<in>set [Some 1, None, Some 2]. p \<noteq> None \<longrightarrow> deref ?hp p \<noteq> None"
    by (simp add: deref_def)
  from EfaContext_submitPostSend_marks_all [OF valid, of "EfaContext ''hostA'' ''efa0''" "[]"]
  show ?thesis by (auto simp: markSuccess_def fun_eq_iff)
qed

subsection \<open>Creating an endpoint\<close>

text \<open>
  C10. When the store has no endpoint for the peer path and the queue list is empty or
  starts with a null entry, \<open>EfaContext::endpoint\<close> returns a new endpoint and puts it
  into the store without calling the endpoint's \<open>construct\<close>: the history of provider
  calls is unchanged, and the endpoint is the freshly made one with only its peer path
  set, so its status is \<open>INITIALIZING\<close> and its provider endpoint \<open>ep\<close> is null.
\<close>

theorem endpoint_without_cq_skips_construct:
  assumes "endpoint_store c = Some st"
    and "EfaEndpointStore_get st path = None"
    and "cq_list c = [] \<or> (\<exists>qs. cq_list c = None # qs)"
  shows "EfaContext_endpoint P dflt path (c, h)
     = (Some (EfaEndPoint\<lparr>ep_peer_nic_path := path\<rparr>),
        c\<lparr>endpoint_store := Some (st(path \<mapsto> Some (EfaEndPoint\<lparr>ep_peer_nic_path := path\<rparr>)))\<rparr>,
        h)
     \<and> status (EfaEndPoint\<lparr>ep_peer_nic_path := path\<rparr>) = INITIALIZING
     \<and> ep (EfaEndPoint\<lparr>ep_peer_nic_path := path\<rparr>) = None"
proof -
  have skip: "(case cq_list c of
                 Some q # x \<Rightarrow> EfaEndPoint_construct P c (cq q) a b d e (EfaEndPoint, h)
               | _ \<Rightarrow> (RC_OK, EfaEndPoint, h)) = (RC_OK, EfaEndPoint, h)" for a b d e
    using assms(3) by auto
  have "\<not> connected EfaEndPoint"
    by (simp add: connected_def EfaEndPoint_def)
  then have "setPeerNicPath path EfaEndPoint = EfaEndPoint\<lparr>ep_peer_nic_path := path\<rparr>"
    by (simp add: setPeerNicPath_def)
  with assms(1,2) skip have "EfaContext_endpoint P dflt path (c, h)
     = (Some (EfaEndPoint\<lparr>ep_peer_nic_path := path\<rparr>),
        c\<lparr>endpoint_store := Some (st(path \<mapsto> Some (EfaEndPoint\<lparr>ep_peer_nic_path := path\<rparr>)))\<rparr>,
        h)"
    by (cases dflt) (simp add: EfaContext_endpoint_def EfaEndpointStore_add_def Let_def)
  then show ?thesis
    by (simp add: EfaEndPoint_def)
qed

theorem endpoint_without_cq_skips_construct_witness:
  "EfaContext_endpoint provider_ok (1, 4, 256, 64) ''hostB@efa0''
     ((EfaContext ''hostA'' ''efa0'')\<lparr>fi_info := Some 2, hints := Some 1, fabric := Some 3,
         domain := Some 4, av := Some 5, cq_list := [None], endpoint_store := Some Map.empty\<rparr>, [])
   = (Some (EfaEndPoint\<lparr>ep_peer_nic_path := ''hostB@efa0''\<rparr>),
      (EfaContext ''hostA'' ''efa0'')\<lparr>fi_info := Some 2, hints := Some 1, fabric := Some 3,
         domain := Some 4, av := Some 5, cq_list := [None],
         endpoint_store :=
           Some [''hostB@efa0'' \<mapsto> Some (EfaEndPoint\<lparr>ep_peer_nic_path := ''hostB@efa0''\<rparr>)]\<rparr>,
      [])
   \<and> status (EfaEndPoint\<lparr>ep_peer_nic_path := ''hostB@efa0''\<rparr>) = INITIALIZING
   \<and> ep (EfaEndPoint\<lparr>ep_peer_nic_path := ''hostB@efa0''\<rparr>) = None"
proof -
  let ?c = "(EfaContext ''hostA'' ''efa0'')\<lparr>fi_info := Some 2, hints := Some 1, fabric := Some 3,
         domain := Some 4, av := Some 5, cq_list := [None], endpoint_store := Some Map.empty\<rparr>"
  have a1: "endpoint_store ?c = Some Map.empty" by simp
  have a2: "EfaEndpointStore_get Map.empty ''hostB@efa0'' = None"
    by (simp add: EfaEndpointStore_get_def)
  have a3: "cq_list ?c = [] \<or> (\<exists>qs. cq_list ?c = None # qs)" by simp
  from endpoint_without_cq_skips_construct [OF a1 a2 a3, of provider_ok "(1, 4, 256, 64)" "[]"]
  show ?thesis by simp
qed

section \<open>Properties of the peer endpoint\<close>

subsection \<open>The hexadecimal text of an address decodes to the address\<close>

lemma hex_digit_props:
  assumes "n < 16"
  shows "xdigit (hex_digit n) = Some n" and "\<not> isspace (hex_digit n)"
    and "hex_digit n \<noteq> CHR ''-''" and "hex_digit n \<noteq> CHR ''+''"
proof -
  have "list_all (\<lambda>k. xdigit (hex_digit k) = Some k \<and> \<not> isspace (hex_digit k)
           \<and> hex_digit k \<noteq> CHR ''-'' \<and> hex_digit k \<noteq> CHR ''+'') [0..<16]"
    by (simp add: upt_rec hex_digit_def xdigit_def isspace_def)
  moreover from assms have "n \<in> set [0..<16]"
    by simp
  ultimately show "xdigit (hex_digit n) = Some n" and "\<not> isspace (hex_digit n)"
    and "hex_digit n \<noteq> CHR ''-''" and "hex_digit n \<noteq> CHR ''+''"
    unfolding list_all_iff by blast+
qed

lemma strtol16_hex_byte: "word_of_int (strtol16 (hex_byte b)) = b"
proof -
  let ?hi = "unat b div 16" and ?lo = "unat b mod 16"
  have "unat b < 256"
    using unsigned_less [of b] by simp
  then have hi: "?hi < 16" and lo: "?lo < 16"
    by simp_all
  have small: "int ?hi * 16 + int ?lo \<le> 9223372036854775807"
    using hi lo by linarith
  have "strtol16 (hex_byte b) = int ?hi * 16 + int ?lo"
    using hex_digit_props [OF hi] hex_digit_props [OF lo] small
    by (simp add: strtol16_def hex_byte_def strip_sign_def strip_0x_def)
  also have "\<dots> = int (unat b)"
    by presburger
  finally show ?thesis by simp
qed

lemma hex_to_bin_getLocalAddr: "hex_to_bin (getLocalAddr e) = local_addr e"
proof -
  have "hex_to_bin (concat (map hex_byte bs)) = bs" for bs
  proof (induction bs)
    case Nil
    then show ?case by simp
  next
    case (Cons b bs)
    have "hex_to_bin (hex_byte b @ r) = word_of_int (strtol16 (hex_byte b)) # hex_to_bin r" for r
      by (simp add: hex_byte_def)
    with Cons show ?case by (simp add: strtol16_hex_byte)
  qed
  then show ?thesis by (simp add: getLocalAddr_def)
qed


lemma insertPeerAddr_eq:
  "insertPeerAddr P c s (e, h) =
     (if fst (fi_av_insert P h (av c) (hex_to_bin s)) = 1 then RC_OK else ERR_ENDPOINT,
      e\<lparr>peer_fi_addr := snd (fi_av_insert P h (av c) (hex_to_bin s))\<rparr>,
      h @ [FiAvInsert (av c) (hex_to_bin s)])"
  by (simp add: insertPeerAddr_def Let_def split: prod.splits)

subsection \<open>Loopback\<close>

text \<open>
  C8, as amended. On an endpoint that is not connected and whose peer path is the
  context's own path, \<open>setupConnectionsByActive\<close> makes exactly one provider call: the
  insertion of the endpoint's own local address into the address vector. No handshake is
  sent. If the insertion succeeds the call returns 0 and the status is \<open>CONNECTED\<close>; if
  it fails the call returns \<open>ERR_ENDPOINT\<close> and the status is as it was.
\<close>

theorem loopback_connect:
  assumes "\<not> connected e" and "nicPath c = ep_peer_nic_path e"
  shows "setupConnectionsByActive P c (e, h) =
     (if fst (fi_av_insert P h (av c) (local_addr e)) = 1
      then (RC_OK,
            e\<lparr>peer_fi_addr := snd (fi_av_insert P h (av c) (local_addr e)), status := CONNECTED\<rparr>,
            h @ [FiAvInsert (av c) (local_addr e)])
      else (ERR_ENDPOINT,
            e\<lparr>peer_fi_addr := snd (fi_av_insert P h (av c) (local_addr e))\<rparr>,
            h @ [FiAvInsert (av c) (local_addr e)]))"
  using assms
  by (simp add: setupConnectionsByActive_def insertPeerAddr_eq hex_to_bin_getLocalAddr)

theorem loopback_connect_witness:
  "setupConnectionsByActive provider_ok ctxA (epA ''hostA@efa0'', [])
     = (RC_OK, (epA ''hostA@efa0'')\<lparr>peer_fi_addr := 9, status := CONNECTED\<rparr>,
        [FiAvInsert (Some 5) [0xAB, 0x0C]])"
proof -
  have a1: "\<not> connected (epA ''hostA@efa0'')"
    by (simp add: connected_def epA_def)
  have a2: "nicPath ctxA = ep_peer_nic_path (epA ''hostA@efa0'')"
    by (simp add: nicPath_def ctxA_def epA_def EfaContext_def)
  from loopback_connect [OF a1 a2, of provider_ok "[]"]
  show ?thesis by (simp add: provider_ok_def ctxA_def epA_def)
qed

text \<open>
  The claim as stated promises \<open>CONNECTED\<close> for every such endpoint. With a provider whose
  \<^verbatim>\<open>fi_av_insert\<close> fails, the loopback endpoint stays \<open>UNCONNECTED\<close>.
\<close>

theorem loopback_insert_failure_counterexample:
  "setupConnectionsByActive (provider_ok\<lparr>fi_av_insert := (\<lambda>h a bs. (- 22, - 1))\<rparr>)
     ((EfaContext ''hostA'' ''efa0'')\<lparr>av := Some 5\<rparr>)
     (EfaEndPoint\<lparr>status := UNCONNECTED, ep := Some 8, local_addr := [0xAB, 0x0C],
        ep_peer_nic_path := ''hostA@efa0''\<rparr>, [])
   = (ERR_ENDPOINT,
      EfaEndPoint\<lparr>status := UNCONNECTED, ep := Some 8, peer_fi_addr := - 1,
        local_addr := [0xAB, 0x0C], ep_peer_nic_path := ''hostA@efa0''\<rparr>,
      [FiAvInsert (Some 5) [0xAB, 0x0C]])"
  by (simp add: setupConnectionsByActive_def insertPeerAddr_eq hex_to_bin_getLocalAddr
        connected_def nicPath_def EfaContext_def EfaEndPoint_def provider_ok_def)

subsection \<open>The active handshake\<close>

text \<open>
  C5. Three cases of \<open>setupConnectionsByActive\<close>, each with variables of its own.
  An endpoint that is connected: the call returns 0 and changes nothing, no provider call
  is made. An endpoint that is not connected, whose peer path is not the context's own
  and has a server and a device part, and to whose request the transport returns success
  with the reply \<open>d\<close>: if the reply's address is empty the call returns
  \<open>ERR_REJECT_HANDSHAKE\<close> and the endpoint, its status included, is unchanged; if the
  address is not empty and its insertion into the address vector succeeds, the call
  returns 0 and the status is \<open>CONNECTED\<close>.
\<close>

theorem setupConnectionsByActive_handshake:
  "(connected e0 \<longrightarrow> setupConnectionsByActive P0 c0 (e0, h0) = (RC_OK, e0, h0))
   \<and> (\<not> connected e1 \<and> nicPath c1 \<noteq> ep_peer_nic_path e1
       \<and> getServerNameFromNicPath (ep_peer_nic_path e1) \<noteq> []
       \<and> getNicNameFromNicPath (ep_peer_nic_path e1) \<noteq> []
       \<and> sendHandshake P1 h1 (getServerNameFromNicPath (ep_peer_nic_path e1))
            (active_local_desc c1 e1) = (RC_OK, d1)
       \<and> reply_msg d1 = []
      \<longrightarrow> setupConnectionsByActive P1 c1 (e1, h1)
          = (ERR_REJECT_HANDSHAKE, e1,
             h1 @ [SendHandshake (getServerNameFromNicPath (ep_peer_nic_path e1))
                     (active_local_desc c1 e1)]))
   \<and> (\<not> connected e2 \<and> nicPath c2 \<noteq> ep_peer_nic_path e2
       \<and> getServerNameFromNicPath (ep_peer_nic_path e2) \<noteq> []
       \<and> getNicNameFromNicPath (ep_peer_nic_path e2) \<noteq> []
       \<and> sendHandshake P2 h2 (getServerNameFromNicPath (ep_peer_nic_path e2))
            (active_local_desc c2 e2) = (RC_OK, d2)
       \<and> reply_msg d2 \<noteq> []
       \<and> fi_av_insert P2
            (h2 @ [SendHandshake (getServerNameFromNicPath (ep_peer_nic_path e2))
                     (active_local_desc c2 e2)])
            (av c2) (hex_to_bin (reply_msg d2)) = (1, fa)
      \<longrightarrow> setupConnectionsByActive P2 c2 (e2, h2)
          = (RC_OK, e2\<lparr>peer_fi_addr := fa, status := CONNECTED\<rparr>,
             h2 @ [SendHandshake (getServerNameFromNicPath (ep_peer_nic_path e2))
                     (active_local_desc c2 e2),
                   FiAvInsert (av c2) (hex_to_bin (reply_msg d2))]))"
  by (simp add: setupConnectionsByActive_def insertPeerAddr_eq)

theorem setupConnectionsByActive_handshake_witness:
  "setupConnectionsByActive provider_ok ctxA ((epA ''hostB@efa0'')\<lparr>status := CONNECTED\<rparr>, [])
     = (RC_OK, (epA ''hostB@efa0'')\<lparr>status := CONNECTED\<rparr>, [])
   \<and> setupConnectionsByActive
       (provider_ok\<lparr>sendHandshake := (\<lambda>h srv d. (RC_OK, HandShakeDesc_init))\<rparr>)
       ctxA (epA ''hostB@efa0'', [])
     = (ERR_REJECT_HANDSHAKE, epA ''hostB@efa0'',
        [SendHandshake ''hostB''
           \<lparr>local_nic_path = ''hostA@efa0'', peer_nic_path = ''hostB@efa0'',
            reply_msg = ''ab0c''\<rparr>])
   \<and> setupConnectionsByActive provider_ok ctxA (epA ''hostB@efa0'', [])
     = (RC_OK, (epA ''hostB@efa0'')\<lparr>peer_fi_addr := 9, status := CONNECTED\<rparr>,
        [SendHandshake ''hostB''
           \<lparr>local_nic_path = ''hostA@efa0'', peer_nic_path = ''hostB@efa0'',
            reply_msg = ''ab0c''\<rparr>,
         FiAvInsert (Some 5) [0x1F, 0x2E]])"
proof -
  let ?Pe = "provider_ok\<lparr>sendHandshake := (\<lambda>h srv d. (RC_OK, HandShakeDesc_init))\<rparr>"
  let ?e = "epA ''hostB@efa0''"
  let ?req = "\<lparr>local_nic_path = ''hostA@efa0'', peer_nic_path = ''hostB@efa0'',
            reply_msg = ''ab0c''\<rparr>"
  let ?reply = "\<lparr>local_nic_path = ''hostB@efa0'', peer_nic_path = ''hostA@efa0'',
            reply_msg = ''1f2e''\<rparr>"
  have conn: "connected (?e\<lparr>status := CONNECTED\<rparr>)"
    by (simp add: connected_def)
  have unconn: "\<not> connected ?e"
    by (simp add: connected_def epA_def)
  have path: "nicPath ctxA \<noteq> ep_peer_nic_path ?e"
    by (simp add: nicPath_def ctxA_def epA_def EfaContext_def)
  have srv: "getServerNameFromNicPath (ep_peer_nic_path ?e) = ''hostB''"
    by (simp add: getServerNameFromNicPath_def epA_def)
  have nic: "getNicNameFromNicPath (ep_peer_nic_path ?e) = ''efa0''"
    by (simp add: getNicNameFromNicPath_def epA_def)
  have req: "active_local_desc ctxA ?e = ?req"
    by (simp add: active_local_desc_def HandShakeDesc_init_def nicPath_def ctxA_def epA_def
          EfaContext_def EfaEndPoint_def getLocalAddr_def hex_byte_def hex_digit_def)
  have empty: "sendHandshake ?Pe [] ''hostB'' ?req = (RC_OK, HandShakeDesc_init)"
    "reply_msg HandShakeDesc_init = []"
    by (simp_all add: provider_ok_def HandShakeDesc_init_def)
  have full: "sendHandshake provider_ok [] ''hostB'' ?req = (RC_OK, ?reply)"
    "reply_msg ?reply \<noteq> []"
    by (simp_all add: provider_ok_def)
  have bin: "hex_to_bin ''1f2e'' = [0x1F, 0x2E]"
    by (simp add: strtol16_def isspace_def strip_sign_def strip_0x_def xdigit_def)
  have ins: "fi_av_insert provider_ok ([] @ [SendHandshake ''hostB'' ?req]) (av ctxA)
       (hex_to_bin (reply_msg ?reply)) = (1, 9)"
    by (simp add: provider_ok_def)
  from setupConnectionsByActive_handshake
    [of "?e\<lparr>status := CONNECTED\<rparr>" provider_ok ctxA "[]"
        ?e ctxA ?Pe "[]" HandShakeDesc_init
        ?e ctxA provider_ok "[]" ?reply 9]
    conn unconn path srv nic req empty full ins bin
  show ?thesis by (simp add: ctxA_def)
qed


subsection \<open>The passive handshake\<close>

text \<open>
  C4, as amended. When the request's peer path is not the context's own path, or its
  local path is not the endpoint's recorded peer path, \<open>setupConnectionsByPassive\<close>
  returns \<open>ERR_REJECT_HANDSHAKE\<close>, empties the reply's payload and makes no provider call.
  An endpoint that was not connected is unchanged. An endpoint that was \<open>CONNECTED\<close> has
  been disconnected before the paths are compared: its status is \<open>UNCONNECTED\<close> and its
  peer address handle is \<open>FI_ADDR_UNSPEC\<close>.
\<close>

theorem setupConnectionsByPassive_mismatch:
  assumes "peer_nic_path peer_desc \<noteq> nicPath c
         \<or> local_nic_path peer_desc \<noteq> ep_peer_nic_path e"
  shows "setupConnectionsByPassive P c peer_desc local_desc (e, h)
       = (ERR_REJECT_HANDSHAKE, local_desc\<lparr>reply_msg := []\<rparr>,
          if status e = CONNECTED
          then e\<lparr>peer_fi_addr := FI_ADDR_UNSPEC, status := UNCONNECTED\<rparr> else e,
          h)"
  using assms
  by (auto simp: setupConnectionsByPassive_def connected_def disconnectUnlocked_def)


theorem setupConnectionsByPassive_mismatch_witness:
  "setupConnectionsByPassive provider_ok ctxA
     \<lparr>local_nic_path = ''hostB@efa0'', peer_nic_path = ''hostC@efa0'', reply_msg = ''1f2e''\<rparr>
     HandShakeDesc_init (epA ''hostB@efa0'', [])
   = (ERR_REJECT_HANDSHAKE, HandShakeDesc_init, epA ''hostB@efa0'', [])"
proof -
  have a1: "peer_nic_path \<lparr>local_nic_path = ''hostB@efa0'', peer_nic_path = ''hostC@efa0'',
                reply_msg = ''1f2e''\<rparr> \<noteq> nicPath ctxA
         \<or> local_nic_path \<lparr>local_nic_path = ''hostB@efa0'', peer_nic_path = ''hostC@efa0'',
                reply_msg = ''1f2e''\<rparr> \<noteq> ep_peer_nic_path (epA ''hostB@efa0'')"
    by (simp add: nicPath_def ctxA_def EfaContext_def)
  from setupConnectionsByPassive_mismatch [OF a1, of provider_ok HandShakeDesc_init "[]"]
  show ?thesis by (simp add: epA_def HandShakeDesc_init_def)
qed

text \<open>
  The claim as stated promises an unchanged connection state. A connected endpoint that
  receives a request with a wrong peer path is left \<open>UNCONNECTED\<close>.
\<close>

theorem passive_mismatch_disconnects_counterexample:
  "setupConnectionsByPassive provider_ok
     ((EfaContext ''hostA'' ''efa0'')\<lparr>av := Some 5\<rparr>)
     \<lparr>local_nic_path = ''hostB@efa0'', peer_nic_path = ''hostC@efa0'', reply_msg = ''1f2e''\<rparr>
     \<lparr>local_nic_path = [], peer_nic_path = [], reply_msg = ''stale''\<rparr>
     (EfaEndPoint\<lparr>status := CONNECTED, ep := Some 8, peer_fi_addr := 9,
        local_addr := [0xAB, 0x0C], ep_peer_nic_path := ''hostB@efa0''\<rparr>, [])
   = (ERR_REJECT_HANDSHAKE,
      \<lparr>local_nic_path = [], peer_nic_path = [], reply_msg = []\<rparr>,
      EfaEndPoint\<lparr>status := UNCONNECTED, ep := Some 8, peer_fi_addr := FI_ADDR_UNSPEC,
        local_addr := [0xAB, 0x0C], ep_peer_nic_path := ''hostB@efa0''\<rparr>, [])"
  by (simp add: setupConnectionsByPassive_def connected_def disconnectUnlocked_def nicPath_def
        EfaContext_def EfaEndPoint_def)

subsection \<open>Submission on an endpoint that cannot connect\<close>

lemma setupConnectionsByActive_history:
  assumes "setupConnectionsByActive P c (e, h) = (r, e', h')"
  shows "\<exists>cs. h' = h @ cs \<and> (\<forall>w. FiWrite w \<notin> set cs)"
  using assms
  by (auto simp: setupConnectionsByActive_def insertPeerAddr_eq Let_def
           split: if_splits prod.splits)

text \<open>
  C3. When the endpoint is not connected and \<open>setupConnectionsByActive\<close> returns an error
  \<open>r\<close>, leaving the endpoint \<open>e\<close> and the history \<open>h\<close>, \<open>submitPostSend\<close> returns \<open>r\<close>;
  every slice of the input list has been appended to the failed list, the input list is
  empty, the heap of slices is untouched, and the history has grown by the calls of the
  connection attempt only, none of which is an \<^verbatim>\<open>fi_write\<close>.
\<close>

theorem submitPostSend_connect_failure:
  assumes "\<not> connected (pe st)"
    and "setupConnectionsByActive P c (pe st, ph st) = (r, e, h)"
    and "r \<noteq> RC_OK"
  shows "EfaEndPoint_submitPostSend P c st
       = Inr (r, st\<lparr>pe := e, ph := h,
                    failed_slice_list := failed_slice_list st @ slice_list st,
                    slice_list := []\<rparr>)
     \<and> (\<exists>cs. h = ph st @ cs \<and> (\<forall>w. FiWrite w \<notin> set cs))"
  using assms setupConnectionsByActive_history [OF assms(2)]
  by (simp add: EfaEndPoint_submitPostSend_def)

theorem submitPostSend_connect_failure_witness:
  "EfaEndPoint_submitPostSend
     (provider_ok\<lparr>sendHandshake := (\<lambda>h srv d. (ERR_OTHER (- 102), HandShakeDesc_init))\<rparr>)
     ctxA
     \<lparr>pe = epA ''hostB@efa0'', ph = [], heap = slices3,
      slice_list = [Some 1, Some 2], failed_slice_list = [Some 3]\<rparr>
   = Inr (ERR_OTHER (- 102),
      \<lparr>pe = epA ''hostB@efa0'',
       ph = [SendHandshake ''hostB''
               \<lparr>local_nic_path = ''hostA@efa0'', peer_nic_path = ''hostB@efa0'',
                reply_msg = ''ab0c''\<rparr>],
       heap = slices3, slice_list = [], failed_slice_list = [Some 3, Some 1, Some 2]\<rparr>)"
proof -
  let ?P = "provider_ok\<lparr>sendHandshake := (\<lambda>h srv d. (ERR_OTHER (- 102), HandShakeDesc_init))\<rparr>"
  let ?st = "\<lparr>pe = epA ''hostB@efa0'', ph = [], heap = slices3,
      slice_list = [Some 1, Some 2], failed_slice_list = [Some 3]\<rparr>"
  have a1: "\<not> connected (pe ?st)"
    by (simp add: connected_def epA_def)
  have a2: "setupConnectionsByActive ?P ctxA (pe ?st, ph ?st)
      = (ERR_OTHER (- 102), epA ''hostB@efa0'',
         [SendHandshake ''hostB''
               \<lparr>local_nic_path = ''hostA@efa0'', peer_nic_path = ''hostB@efa0'',
                reply_msg = ''ab0c''\<rparr>])"
    by (simp add: setupConnectionsByActive_def connected_def epA_def ctxA_def nicPath_def
          EfaContext_def EfaEndPoint_def getServerNameFromNicPath_def getNicNameFromNicPath_def
          active_local_desc_def HandShakeDesc_init_def getLocalAddr_def hex_byte_def
          hex_digit_def)
  have a3: "ERR_OTHER (- 102) \<noteq> RC_OK" by simp
  from submitPostSend_connect_failure [OF a1 a2 a3]
  show ?thesis by simp
qed

subsection \<open>Submission on a connected endpoint\<close>

lemma post_slices_cong:
  fixes s t :: post_state
  assumes "pe s = pe t" "ph s = ph t" "heap s = heap t" "slice_list s = slice_list t"
    "failed_slice_list s = failed_slice_list t"
  shows "post_slices P ps s = post_slices P ps t"
proof -
  from assms have "s = t" by (intro post_state.equality) simp_all
  then show ?thesis by simp
qed

lemma post_loop_eq:
  "it \<le> length (slice_list st) \<Longrightarrow>
   post_loop P it st
     = post_slices P (drop it (slice_list st)) (st\<lparr>slice_list := take it (slice_list st)\<rparr>)"
proof (induction P it st rule: post_loop.induct)
  case (1 P it st)
  show ?case
  proof (cases "it < length (slice_list st)")
    case False
    then have "post_loop P it st = Inr st"
      by (subst post_loop.simps) simp
    moreover from False "1.prems" have "drop it (slice_list st) = []"
      and "take it (slice_list st) = slice_list st"
      by simp_all
    ultimately show ?thesis by simp
  next
    case True
    let ?xs = "slice_list st"
    from True have dr: "drop it ?xs = ?xs ! it # drop (Suc it) ?xs"
      by (simp add: Cons_nth_drop_Suc)
    have er1: "drop it (erase it ?xs) = drop (Suc it) ?xs"
      using True by (simp add: erase_def)
    have er2: "take it (erase it ?xs) = take it ?xs"
      using True by (simp add: erase_def)
    have er3: "it \<le> length (erase it ?xs)"
      using True by (simp add: erase_def)
    have tk: "take (Suc it) ?xs = take it ?xs @ [?xs ! it]"
      using True by (simp add: take_Suc_conv_app_nth)
    show ?thesis
    proof (cases "?xs ! it")
      case None
      with True dr show ?thesis
        by (simp add: post_loop.simps [of P it st])
    next
      case (Some a)
      note p = this
      show ?thesis
      proof (cases "heap st a")
        case None
        with True dr p show ?thesis
          by (simp add: post_loop.simps [of P it st])
      next
        case (Some s)
        let ?req = "write_req_of (pe st) s"
        let ?ret = "fi_write P (ph st) ?req"
        let ?st = "st\<lparr>ph := ph st @ [FiWrite ?req]\<rparr>"
        consider (ok) "?ret = 0" | (again) "?ret \<noteq> 0" "?ret = - FI_EAGAIN"
          | (err) "?ret \<noteq> 0" "?ret \<noteq> - FI_EAGAIN"
          by blast
        then show ?thesis
        proof cases
          case ok
          let ?st' = "?st\<lparr>pe := (pe ?st)\<lparr>wr_depth := wr_depth (pe ?st) + 1\<rparr>,
                       heap := (heap ?st)(a \<mapsto> markSuccess s),
                       slice_list := erase it (slice_list ?st)\<rparr>"
          have "post_loop P it ?st'
            = post_slices P (drop it (slice_list ?st')) (?st'\<lparr>slice_list := take it (slice_list ?st')\<rparr>)"
            using "1.IH"(1) [OF True p Some refl refl refl ok] er3 by simp
          with True dr p Some ok er1 er2 show ?thesis
            by (simp add: post_loop.simps [of P it st]) (rule post_slices_cong; simp)
        next
          case again
          have "post_loop P (Suc it) ?st
            = post_slices P (drop (Suc it) (slice_list ?st)) (?st\<lparr>slice_list := take (Suc it) (slice_list ?st)\<rparr>)"
            using "1.IH"(2) [OF True p Some refl refl refl again] True by simp
          with True dr p Some again tk show ?thesis
            by (simp add: post_loop.simps [of P it st])
        next
          case err
          let ?st' = "?st\<lparr>failed_slice_list := failed_slice_list ?st @ [Some a],
                       slice_list := erase it (slice_list ?st)\<rparr>"
          have "post_loop P it ?st'
            = post_slices P (drop it (slice_list ?st')) (?st'\<lparr>slice_list := take it (slice_list ?st')\<rparr>)"
            using "1.IH"(3) [OF True p Some refl refl refl err] er3 by simp
          with True dr p Some err er1 er2 show ?thesis
            by (simp add: post_loop.simps [of P it st]) (rule post_slices_cong; simp)
        qed
      qed
    qed
  qed
qed


lemma posted_reqs_Cons:
  "hp a = Some s \<Longrightarrow>
   posted_reqs e hp (Some a # ps) = write_req_of e s # posted_reqs e hp ps"
  by (simp add: posted_reqs_def map_filter_simps deref_def)

lemma posted_reqs_mark:
  assumes "hp a = Some s"
  shows "posted_reqs (e\<lparr>wr_depth := d\<rparr>) (hp(a \<mapsto> markSuccess s)) ps = posted_reqs e hp ps"
proof -
  have "map_option (write_req_of (e\<lparr>wr_depth := d\<rparr>)) (deref (hp(a \<mapsto> markSuccess s)) p)
      = map_option (write_req_of e) (deref hp p)" for p
    using assms
    by (cases p) (auto simp: deref_def write_req_of_def markSuccess_def intro!: map_option_cong)
  then show ?thesis by (simp add: posted_reqs_def)
qed

lemma post_outcomes_Cons:
  "hp a = Some s \<Longrightarrow>
   post_outcomes P e h hp (Some a # ps)
     = (Some a, fi_write P h (write_req_of e s))
       # post_outcomes P e (h @ [FiWrite (write_req_of e s)]) hp ps"
  by (simp add: post_outcomes_def posted_reqs_Cons)

lemma post_outcomes_mark:
  "hp a = Some s \<Longrightarrow>
   post_outcomes P (e\<lparr>wr_depth := d\<rparr>) h (hp(a \<mapsto> markSuccess s)) ps = post_outcomes P e h hp ps"
  by (simp add: post_outcomes_def posted_reqs_mark)

lemma post_slices_result:
  assumes "\<forall>p\<in>set ps. deref (heap st) p \<noteq> None"
  shows "post_slices P ps st
    = Inr (st\<lparr>
        pe := (pe st)\<lparr>wr_depth := wr_depth (pe st)
           + int (length (filter (\<lambda>x. snd x = 0) (post_outcomes P (pe st) (ph st) (heap st) ps)))\<rparr>,
        ph := ph st @ map FiWrite (posted_reqs (pe st) (heap st) ps),
        heap := (\<lambda>a. if (Some a, 0) \<in> set (post_outcomes P (pe st) (ph st) (heap st) ps)
                     then map_option markSuccess (heap st a) else heap st a),
        slice_list := slice_list st
           @ map fst (filter (\<lambda>x. snd x = - FI_EAGAIN)
                        (post_outcomes P (pe st) (ph st) (heap st) ps)),
        failed_slice_list := failed_slice_list st
           @ map fst (filter (\<lambda>x. snd x \<noteq> 0 \<and> snd x \<noteq> - FI_EAGAIN)
                        (post_outcomes P (pe st) (ph st) (heap st) ps))\<rparr>)"
  using assms
proof (induction ps arbitrary: st)
  case Nil
  show ?case
    by (simp add: post_outcomes_def posted_reqs_def map_filter_simps)
next
  case (Cons p ps)
  from Cons.prems obtain a s where p: "p = Some a" and s: "heap st a = Some s"
    by (cases p) (auto simp: deref_def)
  let ?req = "write_req_of (pe st) s"
  let ?ret = "fi_write P (ph st) ?req"
  let ?st = "st\<lparr>ph := ph st @ [FiWrite ?req]\<rparr>"
  consider (ok) "?ret = 0" | (again) "?ret \<noteq> 0" "?ret = - FI_EAGAIN"
    | (err) "?ret \<noteq> 0" "?ret \<noteq> - FI_EAGAIN"
    by blast
  then show ?case
  proof cases
    case ok
    let ?st' = "?st\<lparr>pe := (pe st)\<lparr>wr_depth := wr_depth (pe st) + 1\<rparr>,
                    heap := (heap st)(a \<mapsto> markSuccess s)\<rparr>"
    have valid: "\<forall>p\<in>set ps. deref (heap ?st') p \<noteq> None"
      using Cons.prems by (auto simp: deref_def split: option.splits)
    have step: "post_slices P (p # ps) st = post_slices P ps ?st'"
      using p s ok by simp
    show ?thesis
      unfolding step Cons.IH [OF valid]
      using s ok p
      apply (simp add: post_outcomes_Cons post_outcomes_mark posted_reqs_mark posted_reqs_Cons
               FI_EAGAIN_def)
      apply (rule post_state.equality)
      apply (auto simp: fun_eq_iff markSuccess_def)
      done
  next
    case again
    let ?st' = "?st\<lparr>slice_list := slice_list st @ [p]\<rparr>"
    have valid: "\<forall>p\<in>set ps. deref (heap ?st') p \<noteq> None"
      using Cons.prems by (auto simp: deref_def split: option.splits)
    have step: "post_slices P (p # ps) st = post_slices P ps ?st'"
      using p s again by simp
    show ?thesis
      unfolding step Cons.IH [OF valid]
      using s again p
      apply (simp add: post_outcomes_Cons posted_reqs_Cons FI_EAGAIN_def)
      apply (rule post_state.equality)
      apply (auto simp: fun_eq_iff)
      done
  next
    case err
    let ?st' = "?st\<lparr>failed_slice_list := failed_slice_list st @ [p]\<rparr>"
    have valid: "\<forall>p\<in>set ps. deref (heap ?st') p \<noteq> None"
      using Cons.prems by (auto simp: deref_def split: option.splits)
    have step: "post_slices P (p # ps) st = post_slices P ps ?st'"
      using p s err by simp
    show ?thesis
      unfolding step Cons.IH [OF valid]
      using s err p
      apply (simp add: post_outcomes_Cons posted_reqs_Cons)
      apply (rule post_state.equality)
      apply (auto simp: fun_eq_iff)
      done
  qed
qed

lemma setupConnectionsByActive_ok_connected:
  assumes "setupConnectionsByActive P c (e0, h0) = (RC_OK, e, h)"
  shows "connected e"
  using assms
  by (auto simp: setupConnectionsByActive_def insertPeerAddr_eq Let_def connected_def
           split: if_splits prod.splits)

text \<open>
  C2. \<open>submitPostSend\<close> runs its loop on a connected endpoint: the endpoint \<open>e\<close> and the
  history \<open>h\<close> with which the loop starts are those of the state when the endpoint is
  connected on entry, and those that \<open>setupConnectionsByActive\<close> leaves when the endpoint
  is not connected on entry and the connection is established by the call itself. In
  both cases, on a list of pointers to slices, \<open>submitPostSend\<close> posts one \<^verbatim>\<open>fi_write\<close> per
  slice, in order, and returns 0. With \<open>post_outcomes\<close> pairing every slice with the
  provider's answer to its post: the input list is left holding exactly the slices
  answered \<open>- FI_EAGAIN\<close>, in order; the slices answered any other nonzero code are
  appended to the failed list, in order, and the loop goes on after them; the slices
  answered 0 are marked successful in the heap and are in neither list; and the
  outstanding-work counter has grown by the number of answers that are 0.
\<close>

theorem submitPostSend_connected:
  assumes "connected (pe st) \<and> e = pe st \<and> h = ph st
         \<or> \<not> connected (pe st) \<and> setupConnectionsByActive P c (pe st, ph st) = (RC_OK, e, h)"
    and "\<forall>p\<in>set (slice_list st). deref (heap st) p \<noteq> None"
  shows "connected e
    \<and> EfaEndPoint_submitPostSend P c st
    = Inr (RC_OK,
        st\<lparr>pe := e\<lparr>wr_depth := wr_depth e
              + int (length (filter (\<lambda>x. snd x = 0)
                      (post_outcomes P e h (heap st) (slice_list st))))\<rparr>,
           ph := h @ map FiWrite (posted_reqs e (heap st) (slice_list st)),
           heap := (\<lambda>a. if (Some a, 0) \<in> set (post_outcomes P e h (heap st) (slice_list st))
                        then map_option markSuccess (heap st a) else heap st a),
           slice_list := map fst (filter (\<lambda>x. snd x = - FI_EAGAIN)
                      (post_outcomes P e h (heap st) (slice_list st))),
           failed_slice_list := failed_slice_list st
              @ map fst (filter (\<lambda>x. snd x \<noteq> 0 \<and> snd x \<noteq> - FI_EAGAIN)
                      (post_outcomes P e h (heap st) (slice_list st)))\<rparr>)"
proof -
  let ?st = "st\<lparr>pe := e, ph := h\<rparr>"
  let ?start = "?st\<lparr>slice_list := []\<rparr>"
  have conn: "connected e"
    using assms(1) setupConnectionsByActive_ok_connected by blast
  have enter: "(if \<not> connected (pe st) then setupConnectionsByActive P c (pe st, ph st)
                else (RC_OK, pe st, ph st)) = (RC_OK, e, h)"
    using assms(1) by auto
  have "post_loop P 0 ?st = post_slices P (slice_list ?st) ?start"
    using post_loop_eq [of 0 ?st P] by simp
  moreover have "\<forall>p\<in>set (slice_list ?st). deref (heap ?start) p \<noteq> None"
    using assms(2) by simp
  ultimately have "post_loop P 0 ?st
    = Inr (st\<lparr>pe := e\<lparr>wr_depth := wr_depth e
              + int (length (filter (\<lambda>x. snd x = 0)
                      (post_outcomes P e h (heap st) (slice_list st))))\<rparr>,
           ph := h @ map FiWrite (posted_reqs e (heap st) (slice_list st)),
           heap := (\<lambda>a. if (Some a, 0) \<in> set (post_outcomes P e h (heap st) (slice_list st))
                        then map_option markSuccess (heap st a) else heap st a),
           slice_list := map fst (filter (\<lambda>x. snd x = - FI_EAGAIN)
                      (post_outcomes P e h (heap st) (slice_list st))),
           failed_slice_list := failed_slice_list st
              @ map fst (filter (\<lambda>x. snd x \<noteq> 0 \<and> snd x \<noteq> - FI_EAGAIN)
                      (post_outcomes P e h (heap st) (slice_list st)))\<rparr>)"
    by (simp add: post_slices_result cong: if_cong)
  with conn enter show ?thesis
    by (simp add: EfaEndPoint_submitPostSend_def)
qed


theorem submitPostSend_connected_witness:
  "EfaEndPoint_submitPostSend
     (provider_ok\<lparr>fi_write :=
        (\<lambda>h r. if length h = 0 then - 11 else if length h = 1 then 0 else - 5)\<rparr>)
     ctxA
     \<lparr>pe = (epA ''hostB@efa0'')\<lparr>status := CONNECTED, peer_fi_addr := 9\<rparr>, ph = [], heap = slices3,
      slice_list = [Some 1, Some 2, Some 3], failed_slice_list = []\<rparr>
   = Inr (RC_OK,
      \<lparr>pe = (epA ''hostB@efa0'')\<lparr>status := CONNECTED, peer_fi_addr := 9, wr_depth := 1\<rparr>,
       ph = [FiWrite \<lparr>wr_ep = Some 8, wr_buf = 0x1000, wr_len = 64, wr_desc = None, wr_dest = 9,
                       wr_raddr = 0x9000, wr_rkey = 5\<rparr>,
             FiWrite \<lparr>wr_ep = Some 8, wr_buf = 0x2000, wr_len = 64, wr_desc = None, wr_dest = 9,
                       wr_raddr = 0xA000, wr_rkey = 5\<rparr>,
             FiWrite \<lparr>wr_ep = Some 8, wr_buf = 0x3000, wr_len = 64, wr_desc = None, wr_dest = 9,
                       wr_raddr = 0xB000, wr_rkey = 5\<rparr>],
       heap = slices3(2 \<mapsto> \<lparr>source_addr = 0x2000, length_slice = 64, dest_addr = 0xA000,
                               dest_rkey = 5, status_slice = SUCCESS\<rparr>),
       slice_list = [Some 1], failed_slice_list = [Some 3]\<rparr>)
   \<and> EfaEndPoint_submitPostSend
     (provider_ok\<lparr>fi_write :=
        (\<lambda>h r. if length h = 2 then - 11 else if length h = 3 then 0 else - 5)\<rparr>)
     ctxA
     \<lparr>pe = epA ''hostB@efa0'', ph = [], heap = slices3,
      slice_list = [Some 1, Some 2, Some 3], failed_slice_list = []\<rparr>
   = Inr (RC_OK,
      \<lparr>pe = (epA ''hostB@efa0'')\<lparr>status := CONNECTED, peer_fi_addr := 9, wr_depth := 1\<rparr>,
       ph = [SendHandshake ''hostB''
               \<lparr>local_nic_path = ''hostA@efa0'', peer_nic_path = ''hostB@efa0'',
                reply_msg = ''ab0c''\<rparr>,
             FiAvInsert (Some 5) [0x1F, 0x2E],
             FiWrite \<lparr>wr_ep = Some 8, wr_buf = 0x1000, wr_len = 64, wr_desc = None, wr_dest = 9,
                       wr_raddr = 0x9000, wr_rkey = 5\<rparr>,
             FiWrite \<lparr>wr_ep = Some 8, wr_buf = 0x2000, wr_len = 64, wr_desc = None, wr_dest = 9,
                       wr_raddr = 0xA000, wr_rkey = 5\<rparr>,
             FiWrite \<lparr>wr_ep = Some 8, wr_buf = 0x3000, wr_len = 64, wr_desc = None, wr_dest = 9,
                       wr_raddr = 0xB000, wr_rkey = 5\<rparr>],
       heap = slices3(2 \<mapsto> \<lparr>source_addr = 0x2000, length_slice = 64, dest_addr = 0xA000,
                               dest_rkey = 5, status_slice = SUCCESS\<rparr>),
       slice_list = [Some 1], failed_slice_list = [Some 3]\<rparr>)"
proof -
  let ?P = "provider_ok\<lparr>fi_write :=
        (\<lambda>h r. if length h = 0 then - 11 else if length h = 1 then 0 else - 5)\<rparr>"
  let ?Q = "provider_ok\<lparr>fi_write :=
        (\<lambda>h r. if length h = 2 then - 11 else if length h = 3 then 0 else - 5)\<rparr>"
  let ?e = "(epA ''hostB@efa0'')\<lparr>status := CONNECTED, peer_fi_addr := 9\<rparr>"
  let ?hs = "[SendHandshake ''hostB''
               \<lparr>local_nic_path = ''hostA@efa0'', peer_nic_path = ''hostB@efa0'',
                reply_msg = ''ab0c''\<rparr>,
             FiAvInsert (Some 5) [0x1F, 0x2E]]"
  let ?st = "\<lparr>pe = ?e, ph = [], heap = slices3,
      slice_list = [Some 1, Some 2, Some 3], failed_slice_list = []\<rparr>"
  let ?su = "\<lparr>pe = epA ''hostB@efa0'', ph = [], heap = slices3,
      slice_list = [Some 1, Some 2, Some 3], failed_slice_list = []\<rparr>"
  let ?reqs = "[\<lparr>wr_ep = Some 8, wr_buf = 0x1000, wr_len = 64, wr_desc = None, wr_dest = 9,
                       wr_raddr = 0x9000, wr_rkey = 5\<rparr>,
         \<lparr>wr_ep = Some 8, wr_buf = 0x2000, wr_len = 64, wr_desc = None, wr_dest = 9,
                       wr_raddr = 0xA000, wr_rkey = 5\<rparr>,
         \<lparr>wr_ep = Some 8, wr_buf = 0x3000, wr_len = 64, wr_desc = None, wr_dest = 9,
                       wr_raddr = 0xB000, wr_rkey = 5\<rparr>]"
  have reqs_entry: "posted_reqs ?e (heap ?st) (slice_list ?st) = ?reqs"
    and reqs_lazy: "posted_reqs ?e (heap ?su) (slice_list ?su) = ?reqs"
    by (simp_all add: posted_reqs_def map_filter_simps deref_def slices3_def write_req_of_def
          epA_def EfaEndPoint_def)
  have outs_entry: "post_outcomes ?P ?e [] (heap ?st) (slice_list ?st)
      = [(Some 1, - 11), (Some 2, 0), (Some 3, - 5)]"
    unfolding post_outcomes_def reqs_entry by simp
  have outs_lazy: "post_outcomes ?Q ?e ?hs (heap ?su) (slice_list ?su)
      = [(Some 1, - 11), (Some 2, 0), (Some 3, - 5)]"
    unfolding post_outcomes_def reqs_lazy by simp
  have entry: "connected (pe ?st) \<and> ?e = pe ?st \<and> [] = ph ?st
         \<or> \<not> connected (pe ?st) \<and> setupConnectionsByActive ?P ctxA (pe ?st, ph ?st) = (RC_OK, ?e, [])"
    by (simp add: connected_def)
  have conn_run: "setupConnectionsByActive ?Q ctxA (epA ''hostB@efa0'', []) = (RC_OK, ?e, ?hs)"
    by (simp add: setupConnectionsByActive_def insertPeerAddr_eq strtol16_def isspace_def
          strip_sign_def strip_0x_def xdigit_def connected_def epA_def
          ctxA_def nicPath_def EfaContext_def EfaEndPoint_def getServerNameFromNicPath_def
          getNicNameFromNicPath_def active_local_desc_def HandShakeDesc_init_def
          getLocalAddr_def hex_byte_def hex_digit_def provider_ok_def)
  have lazy: "connected (pe ?su) \<and> ?e = pe ?su \<and> ?hs = ph ?su
         \<or> \<not> connected (pe ?su) \<and> setupConnectionsByActive ?Q ctxA (pe ?su, ph ?su) = (RC_OK, ?e, ?hs)"
    using conn_run by (simp add: connected_def epA_def)
  have v1: "\<forall>p\<in>set (slice_list ?st). deref (heap ?st) p \<noteq> None"
    and v2: "\<forall>p\<in>set (slice_list ?su). deref (heap ?su) p \<noteq> None"
    by (simp_all add: deref_def slices3_def)
  have r1: "EfaEndPoint_submitPostSend ?P ctxA ?st
     = Inr (RC_OK, \<lparr>pe = ?e\<lparr>wr_depth := 1\<rparr>, ph = map FiWrite ?reqs,
          heap = slices3(2 \<mapsto> \<lparr>source_addr = 0x2000, length_slice = 64, dest_addr = 0xA000,
                               dest_rkey = 5, status_slice = SUCCESS\<rparr>),
          slice_list = [Some 1], failed_slice_list = [Some 3]\<rparr>)"
    using submitPostSend_connected [OF entry v1]
    unfolding outs_entry reqs_entry
    by (simp add: FI_EAGAIN_def epA_def EfaEndPoint_def cong: if_cong)
       (auto simp: fun_eq_iff slices3_def markSuccess_def)
  have r2: "EfaEndPoint_submitPostSend ?Q ctxA ?su
     = Inr (RC_OK, \<lparr>pe = ?e\<lparr>wr_depth := 1\<rparr>, ph = ?hs @ map FiWrite ?reqs,
          heap = slices3(2 \<mapsto> \<lparr>source_addr = 0x2000, length_slice = 64, dest_addr = 0xA000,
                               dest_rkey = 5, status_slice = SUCCESS\<rparr>),
          slice_list = [Some 1], failed_slice_list = [Some 3]\<rparr>)"
    using submitPostSend_connected [OF lazy v2]
    unfolding outs_lazy reqs_lazy
    by (simp add: FI_EAGAIN_def epA_def EfaEndPoint_def cong: if_cong)
       (auto simp: fun_eq_iff slices3_def markSuccess_def)
  from r1 r2 show ?thesis by simp
qed


end
